theory Spec2Isabelle
  imports Complex_Main
begin

section \<open>Python values, errors and strings\<close>

text \<open>
  The module \<^verbatim>\<open>mycroft/util/lang/parse_en.py\<close> is embedded function by function.
  Text is a \<^typ>\<open>string\<close> of ASCII characters. A Python exception is the \<open>Inl\<close> of a
  sum, so every function that can raise returns \<open>py_error + 'a\<close>.
  A name that starts with an underscore in the source (\<^verbatim>\<open>_tokenize\<close>) starts with
  \<open>u_\<close> here.

  The values a number variable of the source takes are \<^verbatim>\<open>None\<close>, \<^verbatim>\<open>False\<close>, an
  unbounded integer or a float. A float is idealised as an exact rational: the
  rounding of binary floating point is not modelled.
\<close>

datatype py_error = IndexError | ValueError | TypeError | ZeroDivisionError | OverflowError
  | FuelExhausted

datatype pyval = PNone | PFalse | PInt int | PFloat rat

fun py_truthy :: "pyval \<Rightarrow> bool" where
  "py_truthy PNone = False"
| "py_truthy PFalse = False"
| "py_truthy (PInt i) = (i \<noteq> 0)"
| "py_truthy (PFloat r) = (r \<noteq> 0)"

text \<open>In arithmetic \<^verbatim>\<open>False\<close> is the integer 0, and \<^verbatim>\<open>None\<close> raises TypeError.\<close>

fun as_int :: "pyval \<Rightarrow> int option" where
  "as_int PFalse = Some 0"
| "as_int (PInt i) = Some i"
| "as_int _ = None"

fun as_rat :: "pyval \<Rightarrow> rat option" where
  "as_rat PNone = None"
| "as_rat PFalse = Some 0"
| "as_rat (PInt i) = Some (of_int i)"
| "as_rat (PFloat r) = Some r"

definition py_arith :: "(int \<Rightarrow> int \<Rightarrow> int) \<Rightarrow> (rat \<Rightarrow> rat \<Rightarrow> rat) \<Rightarrow> pyval \<Rightarrow> pyval
    \<Rightarrow> py_error + pyval" where
  "py_arith fi fr a b =
     (case (as_int a, as_int b) of
        (Some i, Some j) \<Rightarrow> Inr (PInt (fi i j))
      | _ \<Rightarrow> (case (as_rat a, as_rat b) of
                (Some r, Some q) \<Rightarrow> Inr (PFloat (fr r q))
              | _ \<Rightarrow> Inl TypeError))"

definition py_add :: "pyval \<Rightarrow> pyval \<Rightarrow> py_error + pyval" where
  "py_add = py_arith (+) (+)"

definition py_sub :: "pyval \<Rightarrow> pyval \<Rightarrow> py_error + pyval" where
  "py_sub = py_arith (-) (-)"

definition py_mul :: "pyval \<Rightarrow> pyval \<Rightarrow> py_error + pyval" where
  "py_mul = py_arith (*) (*)"

text \<open>Comparison of a value with a number; only called on values that are numbers
  (or \<^verbatim>\<open>False\<close>), \<^verbatim>\<open>None\<close> compares as no.\<close>

definition py_less :: "pyval \<Rightarrow> rat \<Rightarrow> bool" where
  "py_less a q = (case as_rat a of Some r \<Rightarrow> r < q | None \<Rightarrow> False)"

definition py_greater :: "pyval \<Rightarrow> rat \<Rightarrow> bool" where
  "py_greater a q = (case as_rat a of Some r \<Rightarrow> q < r | None \<Rightarrow> False)"

definition py_ge :: "pyval \<Rightarrow> rat \<Rightarrow> bool" where
  "py_ge a q = (case as_rat a of Some r \<Rightarrow> q \<le> r | None \<Rightarrow> False)"

fun bind :: "py_error + 'a \<Rightarrow> ('a \<Rightarrow> py_error + 'b) \<Rightarrow> py_error + 'b" where
  "bind (Inl e) f = Inl e"
| "bind (Inr x) f = f x"

subsection \<open>Characters and strings\<close>

definition py_isspace :: "char \<Rightarrow> bool" where
  "py_isspace c = (c \<in> set [CHR 0x20, CHR 0x09, CHR 0x0A, CHR 0x0B, CHR 0x0C, CHR 0x0D,
                             CHR 0x1C, CHR 0x1D, CHR 0x1E, CHR 0x1F])"

definition is_digit :: "char \<Rightarrow> bool" where
  "is_digit c = (c \<in> set ''0123456789'')"

definition digit_val :: "char \<Rightarrow> nat" where
  "digit_val c = of_char c - 48"

text \<open>\<^verbatim>\<open>str.isdigit()\<close>: every character is a digit and there is at least one.\<close>

definition isdigit :: "string \<Rightarrow> bool" where
  "isdigit s = (s \<noteq> [] \<and> list_all is_digit s)"

text \<open>\<^verbatim>\<open>s[0].isdigit()\<close> raises IndexError on the empty string.\<close>

definition first_isdigit :: "string \<Rightarrow> py_error + bool" where
  "first_isdigit s = (case s of [] \<Rightarrow> Inl IndexError | c # _ \<Rightarrow> Inr (is_digit c))"

definition lower_char :: "char \<Rightarrow> char" where
  "lower_char c = (if c \<in> set ''ABCDEFGHIJKLMNOPQRSTUVWXYZ''
                   then char_of (of_char c + (32::nat)) else c)"

definition lower :: "string \<Rightarrow> string" where
  "lower s = map lower_char s"

text \<open>\<^verbatim>\<open>str.split()\<close>: the maximal runs of characters that are not whitespace.\<close>

fun split_aux :: "string \<Rightarrow> string \<Rightarrow> string list" where
  "split_aux cur [] = (if cur = [] then [] else [cur])"
| "split_aux cur (c # cs) =
     (if py_isspace c then (if cur = [] then split_aux [] cs else cur # split_aux [] cs)
      else split_aux (cur @ [c]) cs)"

definition split :: "string \<Rightarrow> string list" where
  "split s = split_aux [] s"

text \<open>\<^verbatim>\<open>str.split(sep)\<close> on one character: the empty pieces are kept.\<close>

fun split_on_aux :: "char \<Rightarrow> string \<Rightarrow> string \<Rightarrow> string list" where
  "split_on_aux sep cur [] = [cur]"
| "split_on_aux sep cur (c # cs) =
     (if c = sep then cur # split_on_aux sep [] cs else split_on_aux sep (cur @ [c]) cs)"

definition split_on :: "char \<Rightarrow> string \<Rightarrow> string list" where
  "split_on sep s = split_on_aux sep [] s"

fun join :: "string \<Rightarrow> string list \<Rightarrow> string" where
  "join sep [] = []"
| "join sep [w] = w"
| "join sep (w # v # ws) = w @ sep @ join sep (v # ws)"

definition is_prefix :: "string \<Rightarrow> string \<Rightarrow> bool" where
  "is_prefix p s = (take (length p) s = p)"

text \<open>\<^verbatim>\<open>str.replace(old, new)\<close> for a non-empty \<open>old\<close>: the occurrences are replaced
  from the left and do not overlap. The counter is the number of characters of the
  occurrence still to skip.\<close>

fun replace_aux :: "string \<Rightarrow> string \<Rightarrow> nat \<Rightarrow> string \<Rightarrow> string" where
  "replace_aux old new k [] = []"
| "replace_aux old new (Suc k) (c # cs) = replace_aux old new k cs"
| "replace_aux old new 0 (c # cs) =
     (if is_prefix old (c # cs) then new @ replace_aux old new (length old - 1) cs
      else c # replace_aux old new 0 cs)"

definition replace :: "string \<Rightarrow> string \<Rightarrow> string \<Rightarrow> string" where
  "replace old new s = replace_aux old new 0 s"

fun contains :: "string \<Rightarrow> string \<Rightarrow> bool" where
  "contains p [] = (p = [])"
| "contains p (c # cs) = (is_prefix p (c # cs) \<or> contains p cs)"

definition lstrip :: "string \<Rightarrow> string" where
  "lstrip s = dropWhile py_isspace s"

definition rstrip :: "string \<Rightarrow> string" where
  "rstrip s = rev (dropWhile py_isspace (rev s))"

definition strip :: "string \<Rightarrow> string" where
  "strip s = lstrip (rstrip s)"

definition rstrip_char :: "char \<Rightarrow> string \<Rightarrow> string" where
  "rstrip_char c s = rev (dropWhile (\<lambda>x. x = c) (rev s))"

subsection \<open>Numbers and text\<close>

fun digits_val :: "nat \<Rightarrow> string \<Rightarrow> nat" where
  "digits_val acc [] = acc"
| "digits_val acc (c # cs) = digits_val (10 * acc + digit_val c) cs"

text \<open>\<^verbatim>\<open>int(s)\<close> on a word that holds no whitespace: an optional sign, then digits, where
  single underscores may stand between two digits. Anything else raises ValueError.\<close>

fun int_body_ok :: "bool \<Rightarrow> string \<Rightarrow> bool" where
  "int_body_ok prev_digit [] = prev_digit"
| "int_body_ok prev_digit (c # cs) =
     (if is_digit c then int_body_ok True cs
      else if c = CHR ''_'' \<and> prev_digit then (cs \<noteq> [] \<and> is_digit (hd cs) \<and> int_body_ok False cs)
      else False)"

definition py_int_unsigned :: "string \<Rightarrow> py_error + int" where
  "py_int_unsigned s =
     (if int_body_ok False s then Inr (int (digits_val 0 (filter is_digit s)))
      else Inl ValueError)"

definition py_int :: "string \<Rightarrow> py_error + int" where
  "py_int s =
     (case s of
        [] \<Rightarrow> Inl ValueError
      | c # cs \<Rightarrow>
          if c = CHR ''-'' then bind (py_int_unsigned cs) (\<lambda>n. Inr (- n))
          else if c = CHR ''+'' then py_int_unsigned cs
          else py_int_unsigned s)"

text \<open>\<^verbatim>\<open>float(s)\<close> on decimal literals: an optional sign, digits, and an optional
  fraction after a point (one of the two digit groups may be empty, not both).
  Exponents, \<^verbatim>\<open>inf\<close> and \<^verbatim>\<open>nan\<close> are outside the model: they are read as not a number.\<close>

definition float_unsigned :: "string \<Rightarrow> rat option" where
  "float_unsigned s =
     (let ip = takeWhile is_digit s; rest = dropWhile is_digit s
      in if rest = [] then (if ip = [] then None else Some (of_nat (digits_val 0 ip)))
         else if hd rest = CHR ''.'' \<and> list_all is_digit (tl rest) \<and> (ip \<noteq> [] \<or> tl rest \<noteq> [])
         then Some (of_nat (digits_val 0 ip)
                    + of_nat (digits_val 0 (tl rest)) / of_nat (10 ^ length (tl rest)))
         else None)"

definition py_float :: "string \<Rightarrow> rat option" where
  "py_float s =
     (case s of
        [] \<Rightarrow> None
      | c # cs \<Rightarrow>
          if c = CHR ''-'' then map_option uminus (float_unsigned cs)
          else if c = CHR ''+'' then float_unsigned cs
          else float_unsigned s)"

fun nat_digits :: "nat \<Rightarrow> nat \<Rightarrow> string" where
  "nat_digits 0 n = []"
| "nat_digits (Suc fuel) n =
     (if n < 10 then [char_of (48 + n)]
      else nat_digits fuel (n div 10) @ [char_of (48 + n mod 10)])"

definition str_nat :: "nat \<Rightarrow> string" where
  "str_nat n = nat_digits (Suc n) n"

definition str_int :: "int \<Rightarrow> string" where
  "str_int i = (if i < 0 then CHR ''-'' # str_nat (nat (- i)) else str_nat (nat i))"

text \<open>The digits of a fraction \<open>0 \<le> r < 1\<close>, at least one and at most the given number.\<close>

fun frac_digits :: "nat \<Rightarrow> rat \<Rightarrow> string" where
  "frac_digits 0 r = []"
| "frac_digits (Suc k) r =
     (let d = nat \<lfloor>r * 10\<rfloor>; r' = r * 10 - of_nat d
      in char_of (48 + d) # (if r' = 0 then [] else frac_digits k r'))"

text \<open>\<^verbatim>\<open>str(x)\<close> of a float, idealised: the decimal expansion, cut after 16 digits of
  the fraction. It is the text Python prints when the expansion ends within them and
  the value is below \<open>10^16\<close>.\<close>

definition str_float :: "rat \<Rightarrow> string" where
  "str_float r =
     (let a = \<bar>r\<bar>; ip = nat \<lfloor>a\<rfloor>
      in (if r < 0 then ''-'' else '''') @ str_nat ip @ ''.'' @ frac_digits 16 (a - of_nat ip))"

fun py_str :: "pyval \<Rightarrow> string" where
  "py_str PNone = ''None''"
| "py_str PFalse = ''False''"
| "py_str (PInt i) = str_int i"
| "py_str (PFloat r) = str_float r"

section \<open>Tokens and the lexicon\<close>

record token =
  word :: string
  index :: nat

definition u_tokenize :: "string \<Rightarrow> token list" where
  "u_tokenize text = map (\<lambda>(i, w). \<lparr>word = w, index = i\<rparr>) (enumerate 0 (split text))"

text \<open>A Python \<^verbatim>\<open>dict\<close> is the list of its items in insertion order; a later item with
  the same key overrides an earlier one, as \<^verbatim>\<open>update\<close> does. A Python \<^verbatim>\<open>set\<close> of
  words is a list, read through membership only.\<close>

type_synonym ('k, 'v) dict = "('k \<times> 'v) list"

definition dict_get :: "('k, 'v) dict \<Rightarrow> 'k \<Rightarrow> 'v option" where
  "dict_get d k = map_of (rev d) k"

definition dict_in :: "('k, 'v) dict \<Rightarrow> 'k \<Rightarrow> bool" where
  "dict_in d k = (k \<in> set (map fst d))"

definition u_invert_dict :: "('k, 'v) dict \<Rightarrow> ('v, 'k) dict" where
  "u_invert_dict original = map (\<lambda>(key, v). (v, key)) original"

definition u_generate_plurals :: "(string, 'v) dict \<Rightarrow> (string, 'v) dict" where
  "u_generate_plurals originals = map (\<lambda>(key, v). (key @ ''s'', v)) originals"

definition u_generate_plurals_set :: "string list \<Rightarrow> string list" where
  "u_generate_plurals_set originals = map (\<lambda>v. v @ ''s'') originals"

text \<open>
  The tables of \<^verbatim>\<open>mycroft.util.lang.common_data_en\<close> are imported by the module and
  are not part of it: they are the fields of a parameter, under the names the module
  imports them by. Their keys are numbers (\<open>PInt\<close> or \<open>PFloat\<close>).
\<close>

record lexicon =
  ARTICLES :: "string list"
  NUM_STRING_EN :: "(pyval, string) dict"
  LONG_ORDINAL_STRING_EN :: "(pyval, string) dict"
  LONG_SCALE_EN :: "(pyval, string) dict"
  SHORT_SCALE_EN :: "(pyval, string) dict"
  SHORT_ORDINAL_STRING_EN :: "(pyval, string) dict"

definition u_NEGATIVES :: "string list" where
  "u_NEGATIVES = [''negative'', ''minus'']"

definition u_SUMS :: "string list" where
  "u_SUMS = [''twenty'', ''20'', ''thirty'', ''30'', ''forty'', ''40'', ''fifty'', ''50'',
             ''sixty'', ''60'', ''seventy'', ''70'', ''eighty'', ''80'', ''ninety'', ''90'']"

definition u_MULTIPLIES_LONG_SCALE_EN :: "lexicon \<Rightarrow> string list" where
  "u_MULTIPLIES_LONG_SCALE_EN lx =
     map snd (LONG_SCALE_EN lx) @ u_generate_plurals_set (map snd (LONG_SCALE_EN lx))"

definition u_MULTIPLIES_SHORT_SCALE_EN :: "lexicon \<Rightarrow> string list" where
  "u_MULTIPLIES_SHORT_SCALE_EN lx =
     map snd (SHORT_SCALE_EN lx) @ u_generate_plurals_set (map snd (SHORT_SCALE_EN lx))"

definition u_FRACTION_MARKER :: "string list" where
  "u_FRACTION_MARKER = [''and'']"

text \<open>The source iterates over the set \<^verbatim>\<open>{"point", "dot"}\<close>; the order of the literal is
  taken.\<close>

definition u_DECIMAL_MARKER :: "string list" where
  "u_DECIMAL_MARKER = [''point'', ''dot'']"

definition u_STRING_NUM_EN :: "lexicon \<Rightarrow> (string, pyval) dict" where
  "u_STRING_NUM_EN lx =
     (let inv = u_invert_dict (NUM_STRING_EN lx)
      in inv @ u_generate_plurals inv
         @ [(''half'', PFloat (1 / 2)), (''halves'', PFloat (1 / 2)), (''couple'', PInt 2)])"

definition u_STRING_SHORT_ORDINAL_EN :: "lexicon \<Rightarrow> (string, pyval) dict" where
  "u_STRING_SHORT_ORDINAL_EN lx = u_invert_dict (SHORT_ORDINAL_STRING_EN lx)"

definition u_STRING_LONG_ORDINAL_EN :: "lexicon \<Rightarrow> (string, pyval) dict" where
  "u_STRING_LONG_ORDINAL_EN lx = u_invert_dict (LONG_ORDINAL_STRING_EN lx)"

text \<open>
  Modelled from the spec: \<^verbatim>\<open>is_numeric\<close> and \<^verbatim>\<open>look_for_fractions\<close> of
  \<^verbatim>\<open>mycroft.util.lang.parse_common\<close>, which is not among the sources. The spec names
  a "literal digit/float parse" and a "slash-fraction like 3/4": a word is numeric when
  it parses as a float, and a fraction has two numeric pieces.
\<close>

definition is_numeric :: "string \<Rightarrow> bool" where
  "is_numeric input_str = (py_float input_str \<noteq> None)"

definition look_for_fractions :: "string list \<Rightarrow> bool" where
  "look_for_fractions split_list =
     (length split_list = 2 \<and> is_numeric (split_list ! 0) \<and> is_numeric (split_list ! 1))"

definition u_partition_list :: "'a list \<Rightarrow> ('a \<Rightarrow> bool) \<Rightarrow> 'a list list" where
  "u_partition_list items split_on_p =
     (let (splits, current_split) =
            fold (\<lambda>item (splits, current_split).
                    if split_on_p item then (splits @ [current_split, [item]], [])
                    else (splits, current_split @ [item]))
                 items ([], [])
      in filter (\<lambda>x. length x \<noteq> 0) (splits @ [current_split]))"

definition isFractional_en :: "lexicon \<Rightarrow> string \<Rightarrow> bool \<Rightarrow> pyval" where
  "isFractional_en lx input_str short_scale =
     (let s = (if input_str \<noteq> [] \<and> last input_str = CHR ''s'' then butlast input_str
               else input_str);
          ordinal_table = (if short_scale then SHORT_ORDINAL_STRING_EN lx
                           else LONG_ORDINAL_STRING_EN lx);
          fracts = [(''whole'', PInt 1), (''half'', PInt 2), (''halve'', PInt 2),
                    (''quarter'', PInt 4)]
                   @ map (\<lambda>(num, name). (name, num))
                       (filter (\<lambda>(num, name). py_greater num 2) ordinal_table)
      in case dict_get fracts (lower s) of
           None \<Rightarrow> PFalse
         | Some num \<Rightarrow> (case as_rat num of None \<Rightarrow> PFalse | Some r \<Rightarrow> PFloat (1 / r)))"

definition u_initialize_number_data ::
    "lexicon \<Rightarrow> bool \<Rightarrow> string list \<times> (string, pyval) dict \<times> (string, pyval) dict" where
  "u_initialize_number_data lx short_scale =
     (let multiplies = (if short_scale then u_MULTIPLIES_SHORT_SCALE_EN lx
                        else u_MULTIPLIES_LONG_SCALE_EN lx);
          string_num_ordinal_en = (if short_scale then u_STRING_SHORT_ORDINAL_EN lx
                                   else u_STRING_LONG_ORDINAL_EN lx);
          string_num_scale_en = u_invert_dict (if short_scale then SHORT_SCALE_EN lx
                                               else LONG_SCALE_EN lx)
      in (multiplies, string_num_ordinal_en,
          string_num_scale_en @ u_generate_plurals string_num_scale_en))"

section \<open>The number extractor\<close>

text \<open>The variables the token loop of \<^verbatim>\<open>_extract_number_with_text_en\<close> updates.\<close>

record scan_state =
  number_words :: "token list"
  val :: pyval
  prev_val :: pyval
  to_sum :: "pyval list"

text \<open>The first test of the loop body: the word is in none of the tables, is not
  numeric, not a fractional word and not a slash fraction.\<close>

definition unrecognized :: "lexicon \<Rightarrow> bool \<Rightarrow> bool \<Rightarrow> string \<Rightarrow> bool" where
  "unrecognized lx short_scale ordinals w =
     (let (multiplies, string_num_ordinal, string_num_scale) =
            u_initialize_number_data lx short_scale
      in \<not> dict_in string_num_scale w \<and>
         \<not> dict_in (u_STRING_NUM_EN lx) w \<and>
         w \<notin> set u_SUMS \<and>
         w \<notin> set multiplies \<and>
         \<not> (ordinals \<and> dict_in string_num_ordinal w) \<and>
         \<not> is_numeric w \<and>
         \<not> py_truthy (isFractional_en lx w short_scale) \<and>
         \<not> look_for_fractions (split_on CHR ''/'' w))"

text \<open>The part of the loop body from "is this word already a number?" to its end:
  the new \<open>val\<close>, \<open>prev_val\<close> and \<open>to_sum\<close>.\<close>

definition number_value :: "lexicon \<Rightarrow> bool \<Rightarrow> bool \<Rightarrow> string \<Rightarrow> string \<Rightarrow> string
    \<Rightarrow> pyval \<Rightarrow> pyval \<Rightarrow> pyval list \<Rightarrow> py_error + (pyval \<times> pyval \<times> pyval list)" where
  "number_value lx short_scale ordinals w prev_word next_word val0 prev_val0 to_sum0 =
     (let (multiplies, string_num_ordinal, string_num_scale) =
            u_initialize_number_data lx short_scale;
          v1 = (case py_float w of
                  None \<Rightarrow> val0
                | Some r \<Rightarrow> if isdigit w then PInt (int (digits_val 0 w)) else PFloat r);
          v2 = (case dict_get (u_STRING_NUM_EN lx) w of
                  Some x \<Rightarrow> x
                | None \<Rightarrow>
                    (case dict_get string_num_scale w of
                       Some x \<Rightarrow> x
                     | None \<Rightarrow>
                         (if ordinals then
                            (case dict_get string_num_ordinal w of Some x \<Rightarrow> x | None \<Rightarrow> v1)
                          else v1)));
          v3 = (if ordinals \<and> dict_in string_num_ordinal prev_word \<and> v2 = PInt 1
                then prev_val0 else v2)
      in bind (if prev_word \<in> set u_SUMS \<and>
                  (dict_in (u_STRING_NUM_EN lx) w \<or> dict_in string_num_scale w \<or>
                   (ordinals \<and> dict_in string_num_ordinal w)) \<and>
                  py_truthy v3 \<and> py_less v3 10
               then py_add prev_val0 v3 else Inr v3)
         (\<lambda>v4.
      bind (if w \<in> set multiplies
            then (let pv = (if \<not> py_truthy prev_val0 then PInt 1 else prev_val0)
                  in bind (py_mul pv v4) (\<lambda>v. Inr (v, pv)))
            else Inr (v4, prev_val0))
         (\<lambda>(v5, pv5).
      let v6 = (if v5 = PFalse then isFractional_en lx w short_scale else v5);
          next_value = isFractional_en lx next_word short_scale
      in bind (if \<not> ordinals \<and> py_truthy next_value
               then py_mul (if \<not> py_truthy v6 then PInt 1 else v6) next_value
               else Inr v6)
         (\<lambda>v7.
      bind (if py_truthy v7 \<and> prev_word \<noteq> [] \<and> prev_word \<in> set u_NEGATIVES
            then py_sub (PInt 0) v7 else Inr v7)
         (\<lambda>v8.
      if \<not> py_truthy v8 then
        (let aPieces = split_on CHR ''/'' w
         in if look_for_fractions aPieces then
              (case (py_float (aPieces ! 0), py_float (aPieces ! 1)) of
                 (Some a, Some b) \<Rightarrow>
                   if b = 0 then Inl ZeroDivisionError else Inr (PFloat (a / b), pv5, to_sum0)
               | _ \<Rightarrow> Inl ValueError)
            else Inr (v8, pv5, to_sum0))
      else if w \<in> set multiplies \<and> next_word \<notin> set multiplies
           then Inr (PInt 0, PInt 0, to_sum0 @ [v8])
           else Inr (v8, v8, to_sum0))))))"

text \<open>One turn of the token loop at position \<open>idx\<close>. The flag of the result says that
  the loop is left by \<^verbatim>\<open>break\<close>.\<close>

definition number_step :: "lexicon \<Rightarrow> bool \<Rightarrow> bool \<Rightarrow> token list \<Rightarrow> nat \<Rightarrow> scan_state
    \<Rightarrow> py_error + (bool \<times> scan_state)" where
  "number_step lx short_scale ordinals tokens idx st =
     (let (multiplies, string_num_ordinal, string_num_scale) =
            u_initialize_number_data lx short_scale;
          tok = tokens ! idx;
          w = word tok
      in if w \<in> set (ARTICLES lx) \<or> w \<in> set u_NEGATIVES
         then Inr (False, st\<lparr>number_words := number_words st @ [tok]\<rparr>)
         else
           let prev_word = (if idx > 0 then word (tokens ! (idx - 1)) else []);
               next_word = (if idx + 1 < length tokens then word (tokens ! (idx + 1)) else [])
           in if unrecognized lx short_scale ordinals w then
                (if number_words st \<noteq> [] \<and>
                    \<not> list_all (\<lambda>x. x \<in> set (ARTICLES lx) \<or> x \<in> set u_NEGATIVES)
                         (map word (number_words st))
                 then Inr (True, st)
                 else Inr (False, st\<lparr>number_words := []\<rparr>))
              else
                let nw = (if w \<notin> set multiplies \<and> prev_word \<notin> set multiplies \<and>
                             prev_word \<notin> set u_SUMS \<and>
                             \<not> (ordinals \<and> dict_in string_num_ordinal prev_word) \<and>
                             prev_word \<notin> set u_NEGATIVES \<and> prev_word \<notin> set (ARTICLES lx)
                          then [tok]
                          else if prev_word \<in> set u_SUMS \<and> w \<in> set u_SUMS then [tok]
                          else number_words st @ [tok])
                in bind (number_value lx short_scale ordinals w prev_word next_word
                           (val st) (prev_val st) (to_sum st))
                     (\<lambda>(v, pv, ts).
                        Inr (False, \<lparr>number_words = nw, val = v, prev_val = pv, to_sum = ts\<rparr>)))"

text \<open>The token loop, over the positions still to visit.\<close>

fun number_scan :: "lexicon \<Rightarrow> bool \<Rightarrow> bool \<Rightarrow> token list \<Rightarrow> nat list \<Rightarrow> scan_state
    \<Rightarrow> py_error + scan_state" where
  "number_scan lx short_scale ordinals tokens [] st = Inr st"
| "number_scan lx short_scale ordinals tokens (idx # rest) st =
     (case number_step lx short_scale ordinals tokens idx st of
        Inl e \<Rightarrow> Inl e
      | Inr (brk, st') \<Rightarrow>
          if brk then Inr st' else number_scan lx short_scale ordinals tokens rest st')"

text \<open>What follows the two attempts at a fraction and a decimal: the loop and the sum
  of the flushed magnitudes.\<close>

definition number_main :: "lexicon \<Rightarrow> token list \<Rightarrow> bool \<Rightarrow> bool
    \<Rightarrow> py_error + (pyval \<times> token list)" where
  "number_main lx tokens short_scale ordinals =
     bind (number_scan lx short_scale ordinals tokens [0..<length tokens]
             \<lparr>number_words = [], val = PFalse, prev_val = PNone, to_sum = []\<rparr>)
       (\<lambda>st.
          if val st \<noteq> PNone \<and> to_sum st \<noteq> [] then
            bind (fold (\<lambda>x acc. bind acc (\<lambda>a. py_add a x)) (to_sum st) (Inr (PInt 0)))
              (\<lambda>total. bind (py_add (val st) total) (\<lambda>v. Inr (v, number_words st)))
          else Inr (val st, number_words st))"

lemma bind_cong [fundef_cong]:
  "m = m' \<Longrightarrow> (\<And>x. m' = Inr x \<Longrightarrow> f x = f' x) \<Longrightarrow> bind m f = bind m' f'"
  by (cases m') auto

text \<open>
  \<^verbatim>\<open>_extract_number_with_text_en\<close> calls \<^verbatim>\<open>_extract_fraction\<close> and
  \<^verbatim>\<open>_extract_decimal\<close>, which call it back on the tokens before and after the marker
  and call \<^verbatim>\<open>extract_numbers_with_text\<close>, whose \<^verbatim>\<open>while True\<close> loop calls
  \<^verbatim>\<open>extract_number_with_text_en\<close>. The helpers take the function of the nested calls
  as an argument; \<open>u_extract_number_with_text_en lx d\<close> closes the recursion with nested
  calls up to the depth \<open>d\<close>, and the loop makes at most \<open>k\<close> turns. Where a bound is
  reached the result is \<open>Inl FuelExhausted\<close>, which stands for a computation that does
  not return.

  A result of the loop is the tuple \<^verbatim>\<open>(number, string, start_index, end_index)\<close>.
\<close>

type_synonym number_result = "pyval \<times> string \<times> nat option \<times> nat option"

definition placeholder :: string where
  "placeholder = ''<placeholder>''"

text \<open>The body of \<^verbatim>\<open>extract_number_with_text_en\<close> after the call on the tokens: the
  leading articles are popped.\<close>

definition number_with_text :: "lexicon \<Rightarrow> pyval \<times> token list \<Rightarrow> number_result" where
  "number_with_text lx r =
     (let tokens = dropWhile (\<lambda>t. word t \<in> set (ARTICLES lx)) (snd r);
          start_index = (if tokens \<noteq> [] then Some (index (hd tokens)) else None);
          end_index = (if tokens \<noteq> [] then Some (index (last tokens)) else None)
      in (fst r, join '' '' (map word tokens), start_index, end_index))"

text \<open>The words of the text with the span of a result replaced by the placeholder.
  Comparing \<^verbatim>\<open>None\<close> with an index raises TypeError.\<close>

definition mask_words :: "string \<Rightarrow> nat option \<Rightarrow> nat option \<Rightarrow> py_error + string" where
  "mask_words text start_index end_index =
     (let tokens = u_tokenize text
      in if tokens = [] then Inr []
         else (case (start_index, end_index) of
                 (Some s, Some e) \<Rightarrow>
                   Inr (join '' '' (map (\<lambda>t. if \<not> (s \<le> index t \<and> index t \<le> e) then word t
                                               else placeholder) tokens))
               | _ \<Rightarrow> Inl TypeError))"

fun u_extract_fraction :: "lexicon \<Rightarrow> (token list \<Rightarrow> bool \<Rightarrow> bool \<Rightarrow> py_error + (pyval \<times> token list))
      \<Rightarrow> (string \<Rightarrow> py_error + number_result list) \<Rightarrow> string list \<Rightarrow> token list
      \<Rightarrow> py_error + (pyval \<times> token list) option" where
  "u_extract_fraction lx rec_number rec_numbers [] tokens = Inr None"
| "u_extract_fraction lx rec_number rec_numbers (c # cs) tokens =
     (let partitions = u_partition_list tokens (\<lambda>t. word t = c)
      in if length partitions = 3 then
           bind (rec_numbers (join '' '' (map word (partitions ! 0))))
             (\<lambda>numbers.
                if length numbers > 1 then Inr None
                else
                  bind (rec_number (partitions ! 0) True False)
                    (\<lambda>(num1, tokens1).
                  bind (rec_number (partitions ! 2) True False)
                    (\<lambda>(num2, tokens2).
                       if num1 \<noteq> PNone \<and> num2 \<noteq> PNone \<and> py_ge num1 1 \<and>
                          py_greater num2 0 \<and> py_less num2 1
                       then bind (py_add num1 num2)
                              (\<lambda>v. Inr (Some (v, tokens1 @ partitions ! 1 @ tokens2)))
                       else u_extract_fraction lx rec_number rec_numbers cs tokens)))
         else u_extract_fraction lx rec_number rec_numbers cs tokens)"

fun u_extract_decimal :: "lexicon \<Rightarrow> (token list \<Rightarrow> bool \<Rightarrow> bool \<Rightarrow> py_error + (pyval \<times> token list))
      \<Rightarrow> (string \<Rightarrow> py_error + number_result list) \<Rightarrow> string list \<Rightarrow> token list
      \<Rightarrow> py_error + (pyval \<times> token list) option" where
  "u_extract_decimal lx rec_number rec_numbers [] tokens = Inr None"
| "u_extract_decimal lx rec_number rec_numbers (c # cs) tokens =
     (let partitions = u_partition_list tokens (\<lambda>t. word t = c)
      in if length partitions = 3 then
           bind (rec_numbers (join '' '' (map word (partitions ! 0))))
             (\<lambda>numbers.
                if length numbers > 1 then Inr None
                else
                  bind (rec_number (partitions ! 0) True False)
                    (\<lambda>(number, tokens1).
                  bind (rec_number (partitions ! 2) True False)
                    (\<lambda>(decimal, tokens2).
                       if number \<noteq> PNone \<and> decimal \<noteq> PNone \<and>
                          \<not> contains ''.'' (py_str decimal)
                       then (case py_float (''0.'' @ py_str decimal) of
                               None \<Rightarrow> Inl ValueError
                             | Some r \<Rightarrow>
                                 bind (py_add number (PFloat r))
                                   (\<lambda>v. Inr (Some (v, tokens1 @ partitions ! 1 @ tokens2))))
                       else u_extract_decimal lx rec_number rec_numbers cs tokens)))
         else u_extract_decimal lx rec_number rec_numbers cs tokens)"

text \<open>The \<^verbatim>\<open>while True\<close> loop of \<^verbatim>\<open>extract_numbers_with_text\<close>, with at most \<open>k\<close>
  turns.\<close>

fun numbers_loop :: "lexicon \<Rightarrow> (token list \<Rightarrow> bool \<Rightarrow> bool \<Rightarrow> py_error + (pyval \<times> token list))
      \<Rightarrow> nat \<Rightarrow> string \<Rightarrow> bool \<Rightarrow> bool \<Rightarrow> number_result list
      \<Rightarrow> py_error + number_result list" where
  "numbers_loop lx rec_number 0 text short_scale ordinals results = Inl FuelExhausted"
| "numbers_loop lx rec_number (Suc k) text short_scale ordinals results =
     bind (rec_number (u_tokenize text) short_scale ordinals)
       (\<lambda>r. case number_with_text lx r of
               (number, string, start_index, end_index) \<Rightarrow>
                 if \<not> py_truthy number then Inr results
                 else bind (mask_words text start_index end_index)
                        (\<lambda>text'. numbers_loop lx rec_number k text' short_scale ordinals
                                   (results @ [(number, string, start_index, end_index)])))"

text \<open>The body of \<^verbatim>\<open>_extract_number_with_text_en\<close>, over the function that stands
  for its nested calls.\<close>

definition number_body :: "lexicon \<Rightarrow> (token list \<Rightarrow> bool \<Rightarrow> bool \<Rightarrow> py_error + (pyval \<times> token list))
      \<Rightarrow> token list \<Rightarrow> bool \<Rightarrow> bool \<Rightarrow> py_error + (pyval \<times> token list)" where
  "number_body lx rec_number tokens short_scale ordinals =
     (let rec_numbers = (\<lambda>text. numbers_loop lx rec_number (length (u_tokenize text) + 1)
                                  text True False [])
      in bind (u_extract_fraction lx rec_number rec_numbers u_FRACTION_MARKER tokens)
       (\<lambda>fraction.
          case (case fraction of Some (v, ts) \<Rightarrow> if py_truthy v then Some (v, ts) else None
                               | None \<Rightarrow> None) of
            Some r \<Rightarrow> Inr r
          | None \<Rightarrow>
              bind (u_extract_decimal lx rec_number rec_numbers u_DECIMAL_MARKER tokens)
                (\<lambda>decimal.
                   case (case decimal of Some (v, ts) \<Rightarrow> if py_truthy v then Some (v, ts) else None
                                       | None \<Rightarrow> None) of
                     Some r \<Rightarrow> Inr r
                   | None \<Rightarrow> number_main lx tokens short_scale ordinals)))"

primrec u_extract_number_with_text_en :: "lexicon \<Rightarrow> nat \<Rightarrow> token list \<Rightarrow> bool \<Rightarrow> bool
      \<Rightarrow> py_error + (pyval \<times> token list)" where
  "u_extract_number_with_text_en lx 0 = number_body lx (\<lambda>tokens short_scale ordinals. Inl FuelExhausted)"
| "u_extract_number_with_text_en lx (Suc d) = number_body lx (u_extract_number_with_text_en lx d)"

text \<open>The public functions take the bounds from the text: a nested call gets fewer
  tokens than its caller, and every turn of the loop but the last replaces a word
  that is not the placeholder.\<close>

definition extract_number_with_text_en :: "lexicon \<Rightarrow> string \<Rightarrow> bool \<Rightarrow> bool
    \<Rightarrow> py_error + number_result" where
  "extract_number_with_text_en lx text short_scale ordinals =
     (let tokens = u_tokenize text
      in bind (u_extract_number_with_text_en lx (length tokens) tokens short_scale ordinals)
           (\<lambda>r. Inr (number_with_text lx r)))"

definition extractnumber_en :: "lexicon \<Rightarrow> string \<Rightarrow> bool \<Rightarrow> bool \<Rightarrow> py_error + pyval" where
  "extractnumber_en lx text short_scale ordinals =
     bind (extract_number_with_text_en lx text short_scale ordinals) (\<lambda>r. Inr (fst r))"

definition extract_numbers_with_text :: "lexicon \<Rightarrow> string \<Rightarrow> bool \<Rightarrow> bool
    \<Rightarrow> py_error + number_result list" where
  "extract_numbers_with_text lx text short_scale ordinals =
     (let n = length (u_tokenize text)
      in numbers_loop lx (u_extract_number_with_text_en lx n) (n + 1) text short_scale ordinals [])"

text \<open>
  Modelled from the spec: the tables of \<^verbatim>\<open>mycroft.util.lang.common_data_en\<close>, which is
  not among the sources. The spec describes them as word to integer, word to ordinal
  and word to scale multiplier mappings in a short and a long variant ("short:
  billion=10^9; long: billion=10^12"), with the articles "the/a/an". The entries below
  are the English number words up to the trillions; the scale values from a billion
  on are floats, as the literals \<^verbatim>\<open>1e9\<close> and \<^verbatim>\<open>1e12\<close> are.
\<close>

definition lexicon_en :: lexicon where
  "lexicon_en =
     \<lparr>ARTICLES = [''a'', ''an'', ''the''],
      NUM_STRING_EN =
        [(PInt 0, ''zero''), (PInt 1, ''one''), (PInt 2, ''two''), (PInt 3, ''three''),
         (PInt 4, ''four''), (PInt 5, ''five''), (PInt 6, ''six''), (PInt 7, ''seven''),
         (PInt 8, ''eight''), (PInt 9, ''nine''), (PInt 10, ''ten''), (PInt 11, ''eleven''),
         (PInt 12, ''twelve''), (PInt 13, ''thirteen''), (PInt 14, ''fourteen''),
         (PInt 15, ''fifteen''), (PInt 16, ''sixteen''), (PInt 17, ''seventeen''),
         (PInt 18, ''eighteen''), (PInt 19, ''nineteen''), (PInt 20, ''twenty''),
         (PInt 30, ''thirty''), (PInt 40, ''forty''), (PInt 50, ''fifty''),
         (PInt 60, ''sixty''), (PInt 70, ''seventy''), (PInt 80, ''eighty''),
         (PInt 90, ''ninety'')],
      LONG_ORDINAL_STRING_EN =
        [(PInt 1, ''first''), (PInt 2, ''second''), (PInt 3, ''third''), (PInt 4, ''fourth''),
         (PInt 5, ''fifth''), (PInt 6, ''sixth''), (PInt 7, ''seventh''), (PInt 8, ''eighth''),
         (PInt 9, ''ninth''), (PInt 10, ''tenth''), (PInt 11, ''eleventh''),
         (PInt 12, ''twelfth''), (PInt 13, ''thirteenth''), (PInt 14, ''fourteenth''),
         (PInt 15, ''fifteenth''), (PInt 16, ''sixteenth''), (PInt 17, ''seventeenth''),
         (PInt 18, ''eighteenth''), (PInt 19, ''nineteenth''), (PInt 20, ''twentieth''),
         (PInt 30, ''thirtieth''), (PInt 40, ''fortieth''), (PInt 50, ''fiftieth''),
         (PInt 60, ''sixtieth''), (PInt 70, ''seventieth''), (PInt 80, ''eightieth''),
         (PInt 90, ''ninetieth''), (PInt 100, ''hundredth''), (PInt 1000, ''thousandth''),
         (PInt 1000000, ''millionth''), (PFloat 1000000000, ''milliardth''),
         (PFloat 1000000000000, ''billionth'')],
      LONG_SCALE_EN =
        [(PInt 100, ''hundred''), (PInt 1000, ''thousand''), (PInt 1000000, ''million''),
         (PFloat 1000000000, ''milliard''), (PFloat 1000000000000, ''billion'')],
      SHORT_SCALE_EN =
        [(PInt 100, ''hundred''), (PInt 1000, ''thousand''), (PInt 1000000, ''million''),
         (PFloat 1000000000, ''billion''), (PFloat 1000000000000, ''trillion'')],
      SHORT_ORDINAL_STRING_EN =
        [(PInt 1, ''first''), (PInt 2, ''second''), (PInt 3, ''third''), (PInt 4, ''fourth''),
         (PInt 5, ''fifth''), (PInt 6, ''sixth''), (PInt 7, ''seventh''), (PInt 8, ''eighth''),
         (PInt 9, ''ninth''), (PInt 10, ''tenth''), (PInt 11, ''eleventh''),
         (PInt 12, ''twelfth''), (PInt 13, ''thirteenth''), (PInt 14, ''fourteenth''),
         (PInt 15, ''fifteenth''), (PInt 16, ''sixteenth''), (PInt 17, ''seventeenth''),
         (PInt 18, ''eighteenth''), (PInt 19, ''nineteenth''), (PInt 20, ''twentieth''),
         (PInt 30, ''thirtieth''), (PInt 40, ''fortieth''), (PInt 50, ''fiftieth''),
         (PInt 60, ''sixtieth''), (PInt 70, ''seventieth''), (PInt 80, ''eightieth''),
         (PInt 90, ''ninetieth''), (PInt 100, ''hundredth''), (PInt 1000, ''thousandth''),
         (PInt 1000000, ''millionth''), (PFloat 1000000000, ''billionth''),
         (PFloat 1000000000000, ''trillionth'')]\<rparr>"

section \<open>The word to digit rewriter\<close>

record u_ReplaceableNumber =
  rn_value :: pyval
  rn_word :: string
  start_index :: "nat option"
  end_index :: "nat option"

definition mk_ReplaceableNumber :: "number_result \<Rightarrow> u_ReplaceableNumber" where
  "mk_ReplaceableNumber args =
     (case args of (v, w, s, e) \<Rightarrow>
        \<lparr>rn_value = v, rn_word = w, start_index = s, end_index = e\<rparr>)"

text \<open>\<^verbatim>\<open>list.sort(key=...)\<close> on the start indices: stable; a key \<^verbatim>\<open>None\<close> cannot be
  compared, which raises TypeError as soon as there are two elements.\<close>

definition sort_by_start :: "u_ReplaceableNumber list \<Rightarrow> py_error + u_ReplaceableNumber list" where
  "sort_by_start ns =
     (if length ns \<ge> 2 \<and> list_ex (\<lambda>n. start_index n = None) ns then Inl TypeError
      else Inr (sort_key (\<lambda>n. case start_index n of Some s \<Rightarrow> s | None \<Rightarrow> 0) ns))"

text \<open>The loop over the tokens of \<^verbatim>\<open>convert_words_to_numbers\<close>: the pending numbers and
  the words emitted so far.\<close>

fun convert_loop :: "token list \<Rightarrow> u_ReplaceableNumber list \<Rightarrow> string list
    \<Rightarrow> py_error + string list" where
  "convert_loop [] numbers_to_replace results = Inr results"
| "convert_loop (tok # rest) numbers_to_replace results =
     (case numbers_to_replace of
        [] \<Rightarrow> convert_loop rest numbers_to_replace (results @ [word tok])
      | n # ns \<Rightarrow>
          (case start_index n of
             None \<Rightarrow> Inl TypeError
           | Some s \<Rightarrow>
               if index tok < s then convert_loop rest numbers_to_replace (results @ [word tok])
               else
                 let results' = (if index tok = s then results @ [py_str (rn_value n)]
                                 else results)
                 in if Some (index tok) = end_index n then convert_loop rest ns results'
                    else convert_loop rest numbers_to_replace results'))"

definition convert_words_to_numbers :: "lexicon \<Rightarrow> string \<Rightarrow> bool \<Rightarrow> bool \<Rightarrow> py_error + string"
  where
  "convert_words_to_numbers lx text short_scale ordinals =
     (let tokens = u_tokenize text
      in bind (extract_numbers_with_text lx text short_scale ordinals)
           (\<lambda>numbers.
              bind (sort_by_start (map mk_ReplaceableNumber numbers))
                (\<lambda>numbers_to_replace.
                   bind (convert_loop tokens numbers_to_replace [])
                     (\<lambda>results. Inr (join '' '' results)))))"

section \<open>The duration extractor\<close>

text \<open>
  The pattern \<^verbatim>\<open>(?P<value>\d+(?:\.?\d+)?)\s+{unit}s?\<close> at the head of a text: a run of
  digits, taken whole since whitespace or a point must follow it; a point with a run
  of digits after it, if there is one; whitespace; the unit; an \<^verbatim>\<open>s\<close> if there is
  one. The result is the text of the group \<^verbatim>\<open>value\<close> and the length of the match.
\<close>

definition match_here :: "string \<Rightarrow> string \<Rightarrow> (string \<times> nat) option" where
  "match_here unit s =
     (let d1 = takeWhile is_digit s; r1 = dropWhile is_digit s
      in if d1 = [] then None
         else
           let has_frac = (r1 \<noteq> [] \<and> hd r1 = CHR ''.'' \<and> tl r1 \<noteq> [] \<and> is_digit (hd (tl r1)));
               v = (if has_frac then d1 @ ''.'' @ takeWhile is_digit (tl r1) else d1);
               r2 = (if has_frac then dropWhile is_digit (tl r1) else r1);
               ws = takeWhile py_isspace r2;
               r3 = dropWhile py_isspace r2
           in if ws = [] \<or> \<not> is_prefix unit r3 then None
              else
                let r4 = drop (length unit) r3;
                    plural = (r4 \<noteq> [] \<and> hd r4 = CHR ''s'')
                in Some (v, length v + length ws + length unit + (if plural then 1 else 0)))"

text \<open>\<^verbatim>\<open>re.findall\<close> and \<^verbatim>\<open>re.sub(pattern, '', text)\<close>: the matches are looked for from
  the left and do not overlap. The counter is the number of characters of the match
  still to skip.\<close>

fun re_findall :: "string \<Rightarrow> nat \<Rightarrow> string \<Rightarrow> string list" where
  "re_findall unit k [] = []"
| "re_findall unit (Suc k) (c # cs) = re_findall unit k cs"
| "re_findall unit 0 (c # cs) =
     (case match_here unit (c # cs) of
        Some (v, n) \<Rightarrow> v # re_findall unit (n - 1) cs
      | None \<Rightarrow> re_findall unit 0 cs)"

fun re_sub :: "string \<Rightarrow> nat \<Rightarrow> string \<Rightarrow> string" where
  "re_sub unit k [] = []"
| "re_sub unit (Suc k) (c # cs) = re_sub unit k cs"
| "re_sub unit 0 (c # cs) =
     (case match_here unit (c # cs) of
        Some (v, n) \<Rightarrow> re_sub unit (n - 1) cs
      | None \<Rightarrow> c # re_sub unit 0 cs)"

definition time_unit_to_seconds_map :: "(string, rat) dict" where
  "time_unit_to_seconds_map =
     [(''second'', 1), (''minute'', 60), (''hour'', 3600), (''day'', 86400), (''week'', 604800)]"

text \<open>\<^verbatim>\<open>map(lambda s: float(s) * value, matches)\<close>.\<close>

fun match_seconds :: "rat \<Rightarrow> string list \<Rightarrow> py_error + rat list" where
  "match_seconds v [] = Inr []"
| "match_seconds v (s # ss) =
     (case py_float s of
        None \<Rightarrow> Inl ValueError
      | Some r \<Rightarrow> bind (match_seconds v ss) (\<lambda>rs. Inr (r * v # rs)))"

text \<open>The loop over the units: the pieces found and the text left.\<close>

fun duration_pieces :: "(string, rat) dict \<Rightarrow> rat list \<Rightarrow> string \<Rightarrow> py_error + (rat list \<times> string)"
  where
  "duration_pieces [] pieces text = Inr (pieces, text)"
| "duration_pieces ((unit, v) # units) pieces text =
     bind (match_seconds v (re_findall unit 0 text))
       (\<lambda>matches. duration_pieces units (pieces @ matches) (re_sub unit 0 text))"

text \<open>The result is \<^verbatim>\<open>None\<close> for the empty text and a pair otherwise, whose first
  component is \<^verbatim>\<open>None\<close> when there are no pieces.\<close>

definition extract_duration_en :: "lexicon \<Rightarrow> string \<Rightarrow> py_error + (rat option \<times> string) option"
  where
  "extract_duration_en lx text =
     (if text = [] then Inr None
      else
        bind (convert_words_to_numbers lx text True False)
          (\<lambda>text1.
             bind (duration_pieces time_unit_to_seconds_map [] text1)
               (\<lambda>(pieces, text2).
                  let text3 = strip text2;
                      duration = sum_list pieces
                  in Inr (Some (if pieces \<noteq> [] then (Some duration, text3)
                                else (None, text3))))))"

section \<open>The claims about numbers and durations\<close>

lemma number_twenty_two:
  "extractnumber_en lexicon_en ''twenty two'' True False = Inr (PInt 22)"
  by code_simp

lemma number_two_hundred:
  "extractnumber_en lexicon_en ''two hundred'' True False = Inr (PInt 200)"
  by code_simp

lemma number_two_and_a_half:
  "extractnumber_en lexicon_en ''two and a half'' True False = Inr (PFloat (5 / 2))"
  by code_simp

lemma number_three_quarters:
  "extractnumber_en lexicon_en ''3/4'' True False = Inr (PFloat (3 / 4))"
  by code_simp

text \<open>
  Claim C4. The number extractor on the enumerated examples: "twenty two" is 22 (a
  tens word plus a ones word), "two hundred" is 200 (a scale word multiplies),
  "two and a half" is 2.5 (the fraction around the marker "and") and "3/4" is 0.75
  (the slash fraction).
\<close>

theorem C4_extract_number_examples:
  "extractnumber_en lexicon_en ''twenty two'' True False = Inr (PInt 22) \<and>
   extractnumber_en lexicon_en ''two hundred'' True False = Inr (PInt 200) \<and>
   extractnumber_en lexicon_en ''two and a half'' True False = Inr (PFloat (5 / 2)) \<and>
   extractnumber_en lexicon_en ''3/4'' True False = Inr (PFloat (3 / 4))"
  using number_twenty_two number_two_hundred number_two_and_a_half number_three_quarters
  by simp

lemma duration_10_minute:
  "extract_duration_en lexicon_en ''10 minute'' = Inr (Some (Some 600, ''''))"
  by code_simp

lemma duration_timer_5_minutes:
  "extract_duration_en lexicon_en ''set a timer for 5 minutes''
     = Inr (Some (Some 300, ''set a timer for''))"
  by code_simp

text \<open>
  Claim C8. \<^verbatim>\<open>extract_duration("10 minute")\<close> is \<^verbatim>\<open>(600.0, "")\<close> and
  \<^verbatim>\<open>extract_duration("set a timer for 5 minutes")\<close> is \<^verbatim>\<open>(300.0, "set a timer for")\<close>:
  a match contributes its number times the seconds of the unit, the matched text is
  removed and the other words are the remainder.
\<close>

theorem C8_extract_duration_examples:
  "extract_duration_en lexicon_en ''10 minute'' = Inr (Some (Some 600, '''')) \<and>
   extract_duration_en lexicon_en ''set a timer for 5 minutes''
     = Inr (Some (Some 300, ''set a timer for''))"
  using duration_10_minute duration_timer_5_minutes by simp

subsection \<open>Splitting and joining\<close>










subsection \<open>The loop and the rewriter when no number is found\<close>








subsection \<open>The duration loop returns\<close>

lemma not_digit_point: "\<not> is_digit (CHR ''.'')"
  by (simp add: is_digit_def)

lemma float_unsigned_digits:
  assumes "d1 \<noteq> []" "list_all is_digit d1"
  shows "float_unsigned d1 \<noteq> None"
proof -
  have t: "takeWhile is_digit d1 = d1"
    using assms(2) by (simp add: list_all_iff)
  have d: "dropWhile is_digit d1 = []"
    using assms(2) by (simp add: list_all_iff)
  show ?thesis
    unfolding float_unsigned_def Let_def t d using assms(1) by simp
qed

lemma float_unsigned_point:
  assumes "d1 \<noteq> []" "list_all is_digit d1" "list_all is_digit d2"
  shows "float_unsigned (d1 @ CHR ''.'' # d2) \<noteq> None"
proof -
  have "takeWhile is_digit (d1 @ CHR ''.'' # d2) = d1"
    using assms(2) by (simp add: takeWhile_append2 list_all_iff not_digit_point)
  moreover have "dropWhile is_digit (d1 @ CHR ''.'' # d2) = CHR ''.'' # d2"
    using assms(2) by (simp add: dropWhile_append2 list_all_iff not_digit_point)
  ultimately show ?thesis
    using assms by (simp add: float_unsigned_def)
qed

lemma py_float_digit_head:
  "is_digit c \<Longrightarrow> py_float (c # cs) = float_unsigned (c # cs)"
  by (auto simp: py_float_def is_digit_def)

lemma match_here_float:
  assumes "match_here unit s = Some (v, n)"
  shows "py_float v \<noteq> None"
proof -
  define d1 where "d1 = takeWhile is_digit s"
  define r1 where "r1 = dropWhile is_digit s"
  define d2 where "d2 = takeWhile is_digit (tl r1)"
  from assms have ne: "d1 \<noteq> []"
    by (auto simp: match_here_def Let_def d1_def split: if_splits)
  have dig1: "list_all is_digit d1"
    unfolding d1_def list_all_iff by (auto dest: set_takeWhileD)
  have dig2: "list_all is_digit d2"
    unfolding d2_def list_all_iff by (auto dest: set_takeWhileD)
  from assms have v: "v = d1 \<or> v = d1 @ CHR ''.'' # d2"
    by (auto simp: match_here_def Let_def d1_def d2_def r1_def split: if_splits)
  from ne obtain c cs where d1: "d1 = c # cs" by (cases d1) auto
  with dig1 have c: "is_digit c" by simp
  have "py_float v = float_unsigned v"
    using py_float_digit_head [OF c] d1 v by auto
  moreover have "float_unsigned d1 \<noteq> None"
    using ne dig1 by (rule float_unsigned_digits)
  moreover have "float_unsigned (d1 @ CHR ''.'' # d2) \<noteq> None"
    using ne dig1 dig2 by (rule float_unsigned_point)
  ultimately show ?thesis
    using v by auto
qed

lemma re_findall_float:
  "list_all (\<lambda>s. py_float s \<noteq> None) (re_findall unit k tx)"
  by (induction unit k tx rule: re_findall.induct)
     (auto split: option.splits dest: match_here_float)

lemma match_seconds_returns:
  "list_all (\<lambda>s. py_float s \<noteq> None) ss \<Longrightarrow> \<exists>rs. match_seconds v ss = Inr rs"
  by (induction ss) auto

lemma duration_pieces_returns:
  "\<exists>p t. duration_pieces units pieces tx = Inr (p, t)"
proof (induction units arbitrary: pieces tx)
  case Nil
  then show ?case by simp
next
  case (Cons u units)
  obtain unit v where u: "u = (unit, v)" by (cases u)
  obtain rs where "match_seconds v (re_findall unit 0 tx) = Inr rs"
    using match_seconds_returns [OF re_findall_float] by blast
  with Cons.IH u show ?case by simp
qed

text \<open>
  Claim C3, amended. For the empty text \<^verbatim>\<open>extract_duration\<close> returns \<^verbatim>\<open>None\<close>, not a
  pair (the guard \<^verbatim>\<open>if not text: return None\<close>). For every text that is not empty
  and on which the rewriting of number words returns, the loop over the units returns
  its pieces and the residual text, and the result is the pair of the sum of the
  pieces, absent exactly when there is no piece at all (also where the sum is zero),
  and the residual text stripped of surrounding whitespace.
\<close>

theorem C3_extract_duration_pair:
  assumes "tx \<noteq> []"
    and "convert_words_to_numbers lx tx True False = Inr text1"
  shows "\<exists>pieces text2.
           duration_pieces time_unit_to_seconds_map [] text1 = Inr (pieces, text2) \<and>
           extract_duration_en lx tx
             = Inr (Some (if pieces = [] then None else Some (sum_list pieces), strip text2))"
proof -
  obtain pieces text2 where
    p: "duration_pieces time_unit_to_seconds_map [] text1 = Inr (pieces, text2)"
    using duration_pieces_returns by blast
  with assms have "extract_duration_en lx tx
      = Inr (Some (if pieces = [] then None else Some (sum_list pieces), strip text2))"
    by (simp add: extract_duration_en_def Let_def)
  with p show ?thesis by blast
qed

lemma convert_0_seconds:
  "convert_words_to_numbers lexicon_en ''0 seconds'' True False = Inr ''0 seconds''"
  by code_simp

lemma pieces_0_seconds:
  "duration_pieces time_unit_to_seconds_map [] ''0 seconds'' = Inr ([0], [])"
  by code_simp

theorem C3_extract_duration_pair_witness:
  "''0 seconds'' \<noteq> [] \<and>
   convert_words_to_numbers lexicon_en ''0 seconds'' True False = Inr ''0 seconds'' \<and>
   extract_duration_en lexicon_en ''0 seconds'' = Inr (Some (Some 0, []))"
proof -
  have ne: "''0 seconds'' \<noteq> []" by simp
  from C3_extract_duration_pair [OF ne convert_0_seconds] pieces_0_seconds
  have "extract_duration_en lexicon_en ''0 seconds'' = Inr (Some (Some 0, strip []))"
    by auto
  then show ?thesis using convert_0_seconds by (simp add: strip_def lstrip_def rstrip_def)
qed

theorem C3_empty_text_counterexample:
  "extract_duration_en lexicon_en [] = Inr None \<and>
   \<not> (\<exists>seconds remainder. extract_duration_en lexicon_en [] = Inr (Some (seconds, remainder)))"
  by (simp add: extract_duration_en_def)

subsection \<open>The rewriter is not idempotent\<close>








subsection \<open>A zero stops the multi-number loop\<close>





section \<open>Dates and times\<close>

text \<open>
  The classes \<^verbatim>\<open>datetime\<close> and \<^verbatim>\<open>time\<close> of the standard library and
  \<^verbatim>\<open>relativedelta\<close> of \<^verbatim>\<open>dateutil\<close>, as far as the extractor uses them: naive values in
  the proleptic Gregorian calendar, the years 1 to 9999.
\<close>

record datetime =
  dt_year :: int
  dt_month :: int
  dt_day :: int
  dt_hour :: int
  dt_minute :: int
  dt_second :: int
  dt_microsecond :: int

record time_of_day =
  t_hour :: int
  t_minute :: int

definition is_leap :: "int \<Rightarrow> bool" where
  "is_leap y = (y mod 4 = 0 \<and> (y mod 100 \<noteq> 0 \<or> y mod 400 = 0))"

definition days_in_month :: "int \<Rightarrow> int \<Rightarrow> int" where
  "days_in_month y m =
     (if m = 2 then (if is_leap y then 29 else 28)
      else if m \<in> set [4, 6, 9, 11] then 30 else 31)"

definition days_before_year :: "int \<Rightarrow> int" where
  "days_before_year y = (y - 1) * 365 + (y - 1) div 4 - (y - 1) div 100 + (y - 1) div 400"

definition days_before_month :: "int \<Rightarrow> int \<Rightarrow> int" where
  "days_before_month y m = sum_list (map (days_in_month y) [1..m - 1])"

text \<open>\<^verbatim>\<open>date.toordinal()\<close>: the first of January of the year 1 is day 1.\<close>

definition toordinal :: "datetime \<Rightarrow> int" where
  "toordinal d = days_before_year (dt_year d) + days_before_month (dt_year d) (dt_month d) + dt_day d"

definition max_ordinal :: int where
  "max_ordinal = 3652059"

text \<open>The year, month and day of an ordinal, as \<^verbatim>\<open>_ord2ymd\<close> computes them.\<close>

definition ord2ymd :: "int \<Rightarrow> int \<times> int \<times> int" where
  "ord2ymd n0 =
     (let n = n0 - 1;
          n400 = n div 146097; n = n mod 146097;
          n100 = n div 36524; n = n mod 36524;
          n4 = n div 1461; n = n mod 1461;
          n1 = n div 365; n = n mod 365;
          y = n400 * 400 + 1 + n100 * 100 + n4 * 4 + n1
      in if n1 = 4 \<or> n100 = 4 then (y - 1, 12, 31)
         else
           let m0 = (n + 50) div 32;
               p0 = days_before_month y m0;
               m = (if p0 > n then m0 - 1 else m0);
               p = (if p0 > n then p0 - days_in_month y (m0 - 1) else p0)
           in (y, m, n - p + 1))"

text \<open>\<^verbatim>\<open>strftime("%w")\<close> read as a number: Sunday is 0.\<close>

definition weekday_w :: "datetime \<Rightarrow> int" where
  "weekday_w d = toordinal d mod 7"

fun lex_less :: "int list \<Rightarrow> int list \<Rightarrow> bool" where
  "lex_less (x # xs) (y # ys) = (x < y \<or> (x = y \<and> lex_less xs ys))"
| "lex_less xs ys = False"

definition dt_less :: "datetime \<Rightarrow> datetime \<Rightarrow> bool" where
  "dt_less a b =
     lex_less [dt_year a, dt_month a, dt_day a, dt_hour a, dt_minute a, dt_second a,
               dt_microsecond a]
              [dt_year b, dt_month b, dt_day b, dt_hour b, dt_minute b, dt_second b,
               dt_microsecond b]"

text \<open>\<^verbatim>\<open>datetime + timedelta(days, hours, minutes, seconds)\<close>; a date outside the range
  raises OverflowError.\<close>

definition add_timedelta :: "datetime \<Rightarrow> int \<Rightarrow> int \<Rightarrow> int \<Rightarrow> int \<Rightarrow> py_error + datetime" where
  "add_timedelta d days hours minutes seconds =
     (let secs = dt_hour d * 3600 + dt_minute d * 60 + dt_second d
                 + hours * 3600 + minutes * 60 + seconds;
          ordinal = toordinal d + days + secs div 86400;
          s = secs mod 86400
      in if ordinal < 1 \<or> ordinal > max_ordinal then Inl OverflowError
         else (case ord2ymd ordinal of
                 (y, m, dd) \<Rightarrow>
                   Inr (d\<lparr>dt_year := y, dt_month := m, dt_day := dd, dt_hour := s div 3600,
                          dt_minute := (s mod 3600) div 60, dt_second := s mod 60\<rparr>)))"

text \<open>\<^verbatim>\<open>datetime + relativedelta(years, months, days, hours, minutes, seconds)\<close>: the
  months beyond eleven are carried into the years, the year and the month are
  replaced with the day cut to the length of the month, and the rest is added as a
  \<^verbatim>\<open>timedelta\<close>. A year outside the range raises ValueError.\<close>

record relativedelta =
  rd_years :: int
  rd_months :: int
  rd_days :: int
  rd_hours :: int
  rd_minutes :: int
  rd_seconds :: int

definition no_delta :: relativedelta where
  "no_delta = \<lparr>rd_years = 0, rd_months = 0, rd_days = 0, rd_hours = 0, rd_minutes = 0,
               rd_seconds = 0\<rparr>"

definition add_relativedelta :: "datetime \<Rightarrow> relativedelta \<Rightarrow> py_error + datetime" where
  "add_relativedelta d rd =
     (let s = sgn (rd_months rd);
          months = (\<bar>rd_months rd\<bar> mod 12) * s;
          years = rd_years rd + (\<bar>rd_months rd\<bar> div 12) * s;
          y0 = dt_year d + years;
          m0 = dt_month d + months;
          y = (if m0 > 12 then y0 + 1 else if m0 < 1 then y0 - 1 else y0);
          m = (if m0 > 12 then m0 - 12 else if m0 < 1 then m0 + 12 else m0)
      in if y < 1 \<or> y > 9999 then Inl ValueError
         else add_timedelta (d\<lparr>dt_year := y, dt_month := m,
                                dt_day := min (days_in_month y m) (dt_day d)\<rparr>)
                (rd_days rd) (rd_hours rd) (rd_minutes rd) (rd_seconds rd))"

subsection \<open>Parsing the captured date\<close>

definition months :: "string list" where
  "months = [''january'', ''february'', ''march'', ''april'', ''may'', ''june'', ''july'',
             ''august'', ''september'', ''october'', ''november'', ''december'']"

text \<open>The lengths of the texts the directive \<^verbatim>\<open>%d\<close> can match at the head of a text, in
  the order of its alternatives \<^verbatim>\<open>3[0-1]|[1-2]\d|0[1-9]|[1-9]| [1-9]\<close>.\<close>

definition day_matches :: "string \<Rightarrow> nat list" where
  "day_matches s =
     (let c0 = (if s = [] then CHR ''x'' else hd s);
          c1 = (if length s < 2 then CHR ''x'' else s ! 1)
      in (if c0 = CHR ''3'' \<and> c1 \<in> set ''01'' then [2] else [])
         @ (if c0 \<in> set ''12'' \<and> is_digit c1 then [2] else [])
         @ (if c0 = CHR ''0'' \<and> c1 \<in> set ''123456789'' then [2] else [])
         @ (if c0 \<in> set ''123456789'' then [1] else [])
         @ (if c0 = CHR '' '' \<and> c1 \<in> set ''123456789'' then [2] else []))"

text \<open>What follows the day in the second format: whitespace, four digits and the
  end of the text. The result is the year.\<close>

definition year_suffix :: "string \<Rightarrow> int option" where
  "year_suffix s =
     (let ws = takeWhile py_isspace s; r = dropWhile py_isspace s
      in if ws \<noteq> [] \<and> length r = 4 \<and> list_all is_digit r then Some (int (digits_val 0 r))
         else None)"

text \<open>\<^verbatim>\<open>datetime.strptime(datestr, "%B %d")\<close> and, when that raises ValueError,
  \<^verbatim>\<open>datetime.strptime(datestr, "%B %d %Y")\<close>, in the English locale: the month, its number
  and the day, in the year 1900 for the first format. The regular expression of a
  format takes the first alternative of \<^verbatim>\<open>%d\<close> with which the rest of the format
  matches, and the whole text must be matched.\<close>

definition valid_date :: "int \<Rightarrow> int \<Rightarrow> int \<Rightarrow> bool" where
  "valid_date y m d = (1 \<le> y \<and> y \<le> 9999 \<and> 1 \<le> m \<and> m \<le> 12 \<and> 1 \<le> d \<and> d \<le> days_in_month y m)"

fun index_of :: "'a \<Rightarrow> 'a list \<Rightarrow> nat option" where
  "index_of x [] = None"
| "index_of x (y # ys) = (if x = y then Some 0 else map_option Suc (index_of x ys))"

definition month_prefix :: "string \<Rightarrow> (int \<times> string) option" where
  "month_prefix s =
     (case filter (\<lambda>m. is_prefix m (lower s)) months of
        [] \<Rightarrow> None
      | m # _ \<Rightarrow> (case index_of m months of
                    None \<Rightarrow> None
                  | Some i \<Rightarrow> Some (int i + 1, drop (length m) s)))"

definition strptime_B_d :: "string \<Rightarrow> py_error + (int \<times> int \<times> int)" where
  "strptime_B_d s =
     (case month_prefix s of
        None \<Rightarrow> Inl ValueError
      | Some (m, r) \<Rightarrow>
          let ws = takeWhile py_isspace r; r' = dropWhile py_isspace r
          in if ws = [] then Inl ValueError
             else (case day_matches r' of
                     [] \<Rightarrow> Inl ValueError
                   | n # _ \<Rightarrow>
                       if n \<noteq> length r' then Inl ValueError
                       else let d = int (digits_val 0 (filter is_digit (take n r')))
                            in if valid_date 1900 m d then Inr (1900, m, d) else Inl ValueError))"

definition strptime_B_d_Y :: "string \<Rightarrow> py_error + (int \<times> int \<times> int)" where
  "strptime_B_d_Y s =
     (case month_prefix s of
        None \<Rightarrow> Inl ValueError
      | Some (m, r) \<Rightarrow>
          let ws = takeWhile py_isspace r; r' = dropWhile py_isspace r
          in if ws = [] then Inl ValueError
             else (case filter (\<lambda>n. year_suffix (drop n r') \<noteq> None) (day_matches r') of
                     [] \<Rightarrow> Inl ValueError
                   | n # _ \<Rightarrow>
                       (case year_suffix (drop n r') of
                          None \<Rightarrow> Inl ValueError
                        | Some y \<Rightarrow>
                            let d = int (digits_val 0 (filter is_digit (take n r')))
                            in if valid_date y m d then Inr (y, m, d) else Inl ValueError)))"

definition parse_datestr :: "string \<Rightarrow> py_error + (int \<times> int \<times> int)" where
  "parse_datestr s =
     (case strptime_B_d s of
        Inr r \<Rightarrow> Inr r
      | Inl e \<Rightarrow> if e = ValueError then strptime_B_d_Y s else Inl e)"

section \<open>The date-time extractor\<close>

text \<open>
  The variables of \<^verbatim>\<open>extract_datetime_en\<close> that its two loops read and update. The
  list \<open>words\<close> is changed in place by the source. \<open>dayOffset\<close> starts as \<^verbatim>\<open>False\<close>,
  which is 0 in every sum and comparison the source makes, and is an integer
  afterwards. \<open>hrAbs\<close> and \<open>minAbs\<close> start as \<^verbatim>\<open>None\<close>; the value \<open>-1\<close> marks them as
  not to be used.
\<close>

record dt_state =
  words :: "string list"
  found :: bool
  daySpecified :: bool
  dayOffset :: int
  monthOffset :: int
  yearOffset :: int
  fromFlag :: bool
  datestr :: string
  hasYear :: bool
  timeQualifier :: string
  hrOffset :: int
  minOffset :: int
  secOffset :: int
  hrAbs :: "int option"
  minAbs :: "int option"
  military :: bool

definition apostrophe :: char where
  "apostrophe = CHR 0x27"

definition oclock :: string where
  "oclock = ''o'' @ [apostrophe] @ ''clock''"

definition timeQualifiersAM :: "string list" where
  "timeQualifiersAM = [''morning'']"

definition timeQualifiersPM :: "string list" where
  "timeQualifiersPM = [''afternoon'', ''evening'', ''tonight'', ''night'']"

definition timeQualifiersList :: "string list" where
  "timeQualifiersList = timeQualifiersAM @ timeQualifiersPM"

definition markers :: "string list" where
  "markers = [''at'', ''in'', ''on'', ''by'', ''this'', ''around'', ''for'', ''of'', ''within'']"

definition days :: "string list" where
  "days = [''monday'', ''tuesday'', ''wednesday'', ''thursday'', ''friday'', ''saturday'',
           ''sunday'']"

definition monthsShort :: "string list" where
  "monthsShort = [''jan'', ''feb'', ''mar'', ''apr'', ''may'', ''june'', ''july'', ''aug'',
                  ''sept'', ''oct'', ''nov'', ''dec'']"

definition year_multiples :: "string list" where
  "year_multiples = [''decade'', ''century'', ''millennium'']"

definition day_multiples :: "string list" where
  "day_multiples = [''weeks'', ''months'', ''years'']"

definition validFollowups :: "string list" where
  "validFollowups = days @ months @ monthsShort @ [''today'', ''tomorrow'', ''next'', ''last'', ''now'']"

text \<open>The ordinal suffixes are taken out of a word that starts with a digit, one
  after the other, as long as the word does not hold "second".\<close>

fun strip_ordinals :: "string list \<Rightarrow> string \<Rightarrow> string" where
  "strip_ordinals [] w = w"
| "strip_ordinals (ordinal # rest) w =
     strip_ordinals rest
       (if contains ordinal w \<and> \<not> contains ''second'' w then replace ordinal [] w else w)"

definition clean_word :: "string \<Rightarrow> py_error + string" where
  "clean_word w0 =
     (let w = replace (apostrophe # ''s'') [] w0
      in bind (first_isdigit w)
           (\<lambda>b. Inr (if b then strip_ordinals [''rd'', ''st'', ''nd'', ''th''] w else w)))"

fun clean_words :: "string list \<Rightarrow> py_error + string list" where
  "clean_words [] = Inr []"
| "clean_words (w # ws) =
     bind (clean_word w) (\<lambda>w'. bind (clean_words ws) (\<lambda>ws'. Inr (w' # ws')))"

definition clean_string :: "string \<Rightarrow> py_error + string list" where
  "clean_string s0 =
     (let s = lower s0;
          s = replace ''?'' [] s; s = replace ''.'' [] s; s = replace '','' [] s;
          s = replace '' the '' '' '' s; s = replace '' a '' '' '' s;
          s = replace '' an '' '' '' s;
          s = replace (''o'' @ [apostrophe] @ '' clock'') oclock s;
          s = replace ''o clock'' oclock s;
          s = replace (''o '' @ [apostrophe] @ '' clock'') oclock s;
          s = replace (''o '' @ [apostrophe] @ ''clock'') oclock s;
          s = replace ''oclock'' oclock s;
          s = replace ''couple'' ''2'' s;
          s = replace ''centuries'' ''century'' s;
          s = replace ''decades'' ''decade'' s;
          s = replace ''millenniums'' ''millennium'' s
      in clean_words (split s))"

text \<open>Reading and writing a list at a Python index: a negative index counts from the
  end, an index outside the list raises IndexError.\<close>

definition py_index :: "'a list \<Rightarrow> int \<Rightarrow> py_error + nat" where
  "py_index xs i =
     (let n = int (length xs); j = (if i < 0 then n + i else i)
      in if 0 \<le> j \<and> j < n then Inr (nat j) else Inl IndexError)"

definition py_get :: "'a list \<Rightarrow> int \<Rightarrow> py_error + 'a" where
  "py_get xs i = bind (py_index xs i) (\<lambda>j. Inr (xs ! j))"

definition py_set :: "'a list \<Rightarrow> int \<Rightarrow> 'a \<Rightarrow> py_error + 'a list" where
  "py_set xs i v = bind (py_index xs i) (\<lambda>j. Inr (xs[j := v]))"

text \<open>\<^verbatim>\<open>words[i] if i in range else ""\<close>, the way the look-behind and look-ahead words
  are read.\<close>

definition word_at :: "string list \<Rightarrow> nat \<Rightarrow> string" where
  "word_at ws i = (if i < length ws then ws ! i else [])"

definition wordPrevPrev_of :: "string list \<Rightarrow> nat \<Rightarrow> string" where
  "wordPrevPrev_of ws idx = (if idx > 1 then ws ! (idx - 2) else [])"

definition wordPrev_of :: "string list \<Rightarrow> nat \<Rightarrow> string" where
  "wordPrev_of ws idx = (if idx > 0 then ws ! (idx - 1) else [])"

definition starts_digit :: "string \<Rightarrow> bool" where
  "starts_digit s = (s \<noteq> [] \<and> is_digit (hd s))"

text \<open>\<^verbatim>\<open>int(x)\<close> of a number: a float is cut towards zero.\<close>

fun int_of_pyval :: "pyval \<Rightarrow> py_error + int" where
  "int_of_pyval (PInt i) = Inr i"
| "int_of_pyval (PFloat r) = Inr (if r < 0 then - \<lfloor>- r\<rfloor> else \<lfloor>r\<rfloor>)"
| "int_of_pyval PFalse = Inr 0"
| "int_of_pyval PNone = Inl TypeError"

definition year_multiple :: "string \<Rightarrow> int" where
  "year_multiple w = (if w = ''decade'' then 10 else if w = ''century'' then 100 else 1000)"

text \<open>\<^verbatim>\<open>for i in range(used): words[i + start] = ""\<close>.\<close>

fun blank_words :: "string list \<Rightarrow> int \<Rightarrow> nat list \<Rightarrow> py_error + string list" where
  "blank_words ws start [] = Inr ws"
| "blank_words ws start (i # rest) =
     bind (py_set ws (int i + start) []) (\<lambda>ws'. blank_words ws' start rest)"

subsection \<open>The date phase\<close>

text \<open>What one turn of the first loop leaves: the early \<^verbatim>\<open>return\<close> at the word "now",
  or the state with the local variables \<open>start\<close> and \<open>used\<close>.\<close>

datatype date_outcome = Returned string | Went dt_state int int

text \<open>The branch of a month name.\<close>

definition month_rule :: "dt_state \<Rightarrow> nat \<Rightarrow> string \<Rightarrow> py_error + date_outcome" where
  "month_rule st idx w =
     (let ws = words st;
          wordPrevPrev = wordPrevPrev_of ws idx;
          wordPrev = wordPrev_of ws idx;
          wordNext = word_at ws (idx + 1);
          wordNextNext = word_at ws (idx + 2);
          start = int idx;
          m = (case index_of w months of
                 Some i \<Rightarrow> i
               | None \<Rightarrow> (case index_of w monthsShort of Some i \<Rightarrow> i | None \<Rightarrow> 0));
          st1 = st\<lparr>datestr := months ! m\<rparr>;
          after = (if starts_digit wordNext then
                     (if starts_digit wordNextNext
                      then Went (st1\<lparr>datestr := datestr st1 @ '' '' @ wordNext @ '' ''
                                          @ wordNextNext, hasYear := True\<rparr>) start 3
                      else Went (st1\<lparr>datestr := datestr st1 @ '' '' @ wordNext,
                                     hasYear := False\<rparr>) start 2)
                   else Went st1 start 1)
      in if wordPrev \<noteq> [] then
           bind (if is_digit (hd wordPrev) then Inr True
                 else if wordPrev = ''of'' then first_isdigit wordPrevPrev
                 else Inr False)
             (\<lambda>before.
                if before then
                  let day_of = (wordPrev = ''of'');
                      st2 = (if day_of then st1\<lparr>datestr := datestr st1 @ '' '' @ ws ! (idx - 2)\<rparr>
                             else st1\<lparr>datestr := datestr st1 @ '' '' @ wordPrev\<rparr>);
                      start2 = (if day_of then start - 2 else start - 1);
                      used2 = (if day_of then 3 else 2)
                  in if starts_digit wordNext
                     then Inr (Went (st2\<lparr>datestr := datestr st2 @ '' '' @ wordNext,
                                         hasYear := True\<rparr>) start2 (used2 + 1))
                     else Inr (Went (st2\<lparr>hasYear := False\<rparr>) start2 used2)
                else Inr after)
         else Inr after)"

text \<open>The branches from "day" to the month names: those after the branch of "day after
  tomorrow", whose test can raise.\<close>

definition date_rules_tail :: "int \<Rightarrow> dt_state \<Rightarrow> nat \<Rightarrow> string \<Rightarrow> py_error + date_outcome" where
  "date_rules_tail today st idx w =
     (let ws = words st;
          wordPrev = wordPrev_of ws idx;
          start = int idx
      in if w = ''day'' then
           bind (first_isdigit wordPrev)
             (\<lambda>b. if b then bind (py_int wordPrev)
                               (\<lambda>n. Inr (Went (st\<lparr>dayOffset := dayOffset st + n\<rparr>) (start - 1) 2))
                   else Inr (Went st start 0))
         else if w = ''week'' \<and> \<not> fromFlag st then
           bind (first_isdigit wordPrev)
             (\<lambda>b. if b then bind (py_int wordPrev)
                               (\<lambda>n. Inr (Went (st\<lparr>dayOffset := dayOffset st + n * 7\<rparr>)
                                           (start - 1) 2))
                   else if wordPrev = ''next'' then Inr (Went (st\<lparr>dayOffset := 7\<rparr>) (start - 1) 2)
                   else if wordPrev = ''last'' then Inr (Went (st\<lparr>dayOffset := - 7\<rparr>) (start - 1) 2)
                   else Inr (Went st start 0))
         else if w = ''month'' \<and> \<not> fromFlag st then
           bind (first_isdigit wordPrev)
             (\<lambda>b. if b then bind (py_int wordPrev)
                               (\<lambda>n. Inr (Went (st\<lparr>monthOffset := n\<rparr>) (start - 1) 2))
                   else if wordPrev = ''next'' then Inr (Went (st\<lparr>monthOffset := 1\<rparr>) (start - 1) 2)
                   else if wordPrev = ''last'' then Inr (Went (st\<lparr>monthOffset := - 1\<rparr>) (start - 1) 2)
                   else Inr (Went st start 0))
         else if w = ''year'' \<and> \<not> fromFlag st then
           bind (first_isdigit wordPrev)
             (\<lambda>b. if b then bind (py_int wordPrev)
                               (\<lambda>n. Inr (Went (st\<lparr>yearOffset := n\<rparr>) (start - 1) 2))
                   else if wordPrev = ''next'' then Inr (Went (st\<lparr>yearOffset := 1\<rparr>) (start - 1) 2)
                   else if wordPrev = ''last'' then Inr (Went (st\<lparr>yearOffset := - 1\<rparr>) (start - 1) 2)
                   else Inr (Went st start 0))
         else if w \<in> set days \<and> \<not> fromFlag st then
           (case index_of w days of
              None \<Rightarrow> Inr (Went st start 0)
            | Some d \<Rightarrow>
                let dayOffset1 = (int d + 1) - today;
                    dayOffset2 = (if dayOffset1 < 0 then dayOffset1 + 7 else dayOffset1)
                in if wordPrev = ''next''
                   then Inr (Went (st\<lparr>dayOffset := dayOffset2 + 7\<rparr>) (start - 1) 2)
                   else if wordPrev = ''last''
                   then Inr (Went (st\<lparr>dayOffset := dayOffset2 - 7\<rparr>) (start - 1) 2)
                   else Inr (Went (st\<lparr>dayOffset := dayOffset2\<rparr>) start 1))
         else if w \<in> set months \<or> (w \<in> set monthsShort \<and> \<not> fromFlag st) then
           month_rule st idx w
         else Inr (Went st start 0))"

text \<open>The chain of branches of the first loop, for the word \<open>w\<close> at \<open>idx\<close> with its
  final letters "s" taken off.\<close>

definition date_rules :: "lexicon \<Rightarrow> int \<Rightarrow> dt_state \<Rightarrow> nat \<Rightarrow> string \<Rightarrow> py_error + date_outcome"
  where
  "date_rules lx today st idx w =
     (let ws = words st;
          wordPrev = wordPrev_of ws idx;
          wordNext = word_at ws (idx + 1);
          wordNextNext = word_at ws (idx + 2);
          start = int idx
      in if w = ''now'' \<and> datestr st = [] then
           Inr (Returned (join '' '' (split (join '' '' (drop (idx + 1) ws)))))
         else if wordNext \<in> set year_multiples then
           bind (if is_numeric w then extractnumber_en lx w True False else Inr PNone)
             (\<lambda>m0. bind (int_of_pyval (if py_truthy m0 then m0 else PInt 1))
                (\<lambda>multiplier.
                   Inr (Went (st\<lparr>yearOffset := multiplier * year_multiple wordNext\<rparr>) start 2)))
         else if w = ''2'' \<and> wordNext = ''of'' \<and> wordNextNext \<in> set year_multiples then
           Inr (Went (st\<lparr>yearOffset := 2 * year_multiple wordNextNext\<rparr>) start 3)
         else if w = ''2'' \<and> wordNext = ''of'' \<and> wordNextNext \<in> set day_multiples then
           Inr (Went (if wordNextNext = ''years'' then st\<lparr>yearOffset := 2\<rparr>
                      else if wordNextNext = ''months'' then st\<lparr>monthOffset := 2\<rparr>
                      else st\<lparr>dayOffset := 2 * 7\<rparr>) start 3)
         else if w \<in> set timeQualifiersList then
           Inr (Went (st\<lparr>timeQualifier := w\<rparr>) start 0)
         else if w = ''today'' \<and> \<not> fromFlag st then
           Inr (Went (st\<lparr>dayOffset := 0\<rparr>) start 1)
         else if w = ''tomorrow'' \<and> \<not> fromFlag st then
           Inr (Went (st\<lparr>dayOffset := 1\<rparr>) start 1)
         else if w = ''day'' \<and> wordNext = ''after'' \<and> wordNextNext = ''tomorrow'' \<and> \<not> fromFlag st
         then
           bind (first_isdigit wordPrev)
             (\<lambda>b. if \<not> b then
                     (if wordPrev = ''the'' then Inr (Went (st\<lparr>dayOffset := 2\<rparr>) (start - 1) 4)
                      else Inr (Went (st\<lparr>dayOffset := 2\<rparr>) start 3))
                   else date_rules_tail today st idx w)
         else date_rules_tail today st idx w)"

text \<open>The block after the chain: "from" or "after" before an anchor.\<close>

definition from_rule :: "int \<Rightarrow> string \<Rightarrow> string \<Rightarrow> string \<Rightarrow> dt_state \<Rightarrow> int \<Rightarrow> int
    \<Rightarrow> dt_state \<times> int \<times> int" where
  "from_rule today w wordNext wordNextNext st start used =
     (if (w = ''from'' \<or> w = ''after'') \<and> wordNext \<in> set validFollowups then
        (let st1 = st\<lparr>fromFlag := True\<rparr>
         in if wordNext = ''tomorrow'' then (st1\<lparr>dayOffset := dayOffset st1 + 1\<rparr>, start, 2)
            else if wordNext \<in> set days then
              (case index_of wordNext days of
                 None \<Rightarrow> (st1, start, 2)
               | Some d \<Rightarrow>
                   let tmpOffset1 = (int d + 1) - today;
                       tmpOffset = (if tmpOffset1 < 0 then tmpOffset1 + 7 else tmpOffset1)
                   in (st1\<lparr>dayOffset := dayOffset st1 + tmpOffset\<rparr>, start, 2))
            else if wordNextNext \<noteq> [] \<and> wordNextNext \<in> set days then
              (case index_of wordNextNext days of
                 None \<Rightarrow> (st1, start, 2)
               | Some d \<Rightarrow>
                   let tmpOffset = (int d + 1) - today
                   in if wordNext = ''next''
                      then (st1\<lparr>dayOffset := dayOffset st1 + (tmpOffset + 7)\<rparr>, start - 1, 4)
                      else if wordNext = ''last''
                      then (st1\<lparr>dayOffset := dayOffset st1 + (tmpOffset - 7)\<rparr>, start - 1, 4)
                      else (st1\<lparr>dayOffset := dayOffset st1 + tmpOffset\<rparr>, start, 3))
            else (st1, start, 2))
      else (st, start, used))"

text \<open>The block \<^verbatim>\<open>if used > 0\<close> of the first loop: the words used and a marker before
  them are blanked.\<close>

definition date_consume :: "dt_state \<Rightarrow> int \<Rightarrow> int \<Rightarrow> py_error + dt_state" where
  "date_consume st start0 used0 =
     (if used0 > 0 then
        bind (if start0 - 1 > 0 then bind (py_get (words st) (start0 - 1)) (\<lambda>p. Inr (p = ''this''))
              else Inr False)
          (\<lambda>this_before.
             let start = (if this_before then start0 - 1 else start0);
                 used = (if this_before then used0 + 1 else used0)
             in bind (blank_words (words st) start [0..<nat used])
                  (\<lambda>ws1.
                     bind (if start - 1 \<ge> 0
                           then bind (py_get ws1 (start - 1))
                                  (\<lambda>p. if p \<in> set markers then py_set ws1 (start - 1) []
                                        else Inr ws1)
                           else Inr ws1)
                       (\<lambda>ws2. Inr (st\<lparr>words := ws2, found := True, daySpecified := True\<rparr>))))
      else Inr st)"

text \<open>One turn of the first loop, and the loop.\<close>

datatype date_result = ReturnedAt string | Swept dt_state

definition date_step :: "lexicon \<Rightarrow> int \<Rightarrow> dt_state \<Rightarrow> nat \<Rightarrow> py_error + date_result" where
  "date_step lx today st idx =
     (let w0 = words st ! idx
      in if w0 = [] then Inr (Swept st)
         else
           let w = rstrip_char CHR ''s'' w0
           in bind (date_rules lx today st idx w)
                (\<lambda>outcome.
                   case outcome of
                     Returned resultStr \<Rightarrow> Inr (ReturnedAt resultStr)
                   | Went st1 start1 used1 \<Rightarrow>
                       (case from_rule today w (word_at (words st) (idx + 1))
                               (word_at (words st) (idx + 2)) st1 start1 used1 of
                          (st2, start2, used2) \<Rightarrow>
                            bind (date_consume st2 start2 used2) (\<lambda>st3. Inr (Swept st3)))))"

fun date_loop :: "lexicon \<Rightarrow> int \<Rightarrow> nat list \<Rightarrow> dt_state \<Rightarrow> py_error + date_result" where
  "date_loop lx today [] st = Inr (Swept st)"
| "date_loop lx today (idx # rest) st =
     (case date_step lx today st idx of
        Inl e \<Rightarrow> Inl e
      | Inr (ReturnedAt r) \<Rightarrow> Inr (ReturnedAt r)
      | Inr (Swept st') \<Rightarrow> date_loop lx today rest st')"

subsection \<open>The time phase\<close>

text \<open>The local variables of the branch of the second loop for a word that starts
  with a digit.\<close>

record time_locals =
  l_strHH :: string
  l_strMM :: string
  l_remainder :: string
  l_used :: int
  l_isTime :: bool

text \<open>
  The loop over the characters of a word with a colon. In stage 0 the digits go to
  the hours and in stage 1 to the minutes; the first other character switches to
  stage 2 and is itself passed over (the source's \<^verbatim>\<open>i -= 1\<close> does not move the
  \<^verbatim>\<open>for\<close> loop back); in stage 2 the rest of the word, without its points, is the
  remainder.
\<close>

fun colon_scan :: "nat \<Rightarrow> string \<Rightarrow> string \<Rightarrow> string \<Rightarrow> string \<times> string \<times> string" where
  "colon_scan stage hh mm [] = (hh, mm, [])"
| "colon_scan stage hh mm (c # cs) =
     (if stage = 0 then
        (if is_digit c then colon_scan 0 (hh @ [c]) mm cs
         else if c = CHR '':'' then colon_scan 1 hh mm cs
         else colon_scan 2 hh mm cs)
      else if stage = 1 then
        (if is_digit c then colon_scan 1 hh (mm @ [c]) cs
         else colon_scan 2 hh mm cs)
      else (hh, mm, replace ''.'' [] (c # cs)))"

text \<open>The word has a colon: "3:00 in the morning".\<close>

definition colon_time :: "dt_state \<Rightarrow> nat \<Rightarrow> string \<Rightarrow> py_error + (dt_state \<times> time_locals)" where
  "colon_time st idx w =
     (let ws = words st;
          wordNext = word_at ws (idx + 1);
          wordNextNext = word_at ws (idx + 2)
      in case colon_scan 0 [] [] w of
           (strHH, strMM, remainder) \<Rightarrow>
             let l0 = \<lparr>l_strHH = strHH, l_strMM = strMM, l_remainder = remainder, l_used = 0,
                       l_isTime = True\<rparr>;
                 otherwise =
                   (if timeQualifier st \<noteq> [] then
                      bind (if strHH \<noteq> [] then py_int strHH else Inr 0)
                        (\<lambda>h. Inr (st\<lparr>military := True\<rparr>,
                                  if strHH \<noteq> [] \<and> h \<le> 12 \<and> timeQualifier st \<in> set timeQualifiersPM
                                  then l0\<lparr>l_strHH := strHH @ str_int (h + 12)\<rparr> else l0))
                    else Inr (st, l0))
             in if remainder = [] then
                  (let nextWord = replace ''.'' [] wordNext
                   in if nextWord = ''am'' \<or> nextWord = ''pm''
                      then Inr (st, l0\<lparr>l_remainder := nextWord, l_used := 1\<rparr>)
                      else if nextWord = ''tonight''
                      then Inr (st, l0\<lparr>l_remainder := ''pm'', l_used := 1\<rparr>)
                      else if wordNext = ''in'' \<and> wordNextNext = ''the'' then
                        bind (py_get ws (int idx + 3))
                          (\<lambda>w3. if w3 = ''morning''
                                 then Inr (st, l0\<lparr>l_remainder := ''am'', l_used := 3\<rparr>)
                                 else if w3 = ''afternoon''
                                 then Inr (st, l0\<lparr>l_remainder := ''pm'', l_used := 3\<rparr>)
                                 else if w3 = ''evening''
                                 then Inr (st, l0\<lparr>l_remainder := ''pm'', l_used := 3\<rparr>)
                                 else otherwise)
                      else if wordNext = ''in'' \<and> wordNextNext = ''morning''
                      then Inr (st, l0\<lparr>l_remainder := ''am'', l_used := 2\<rparr>)
                      else if wordNext = ''in'' \<and> wordNextNext = ''afternoon''
                      then Inr (st, l0\<lparr>l_remainder := ''pm'', l_used := 2\<rparr>)
                      else if wordNext = ''in'' \<and> wordNextNext = ''evening''
                      then Inr (st, l0\<lparr>l_remainder := ''pm'', l_used := 2\<rparr>)
                      else if wordNext = ''this'' \<and> wordNextNext = ''morning''
                      then Inr (st\<lparr>daySpecified := True\<rparr>, l0\<lparr>l_remainder := ''am'', l_used := 2\<rparr>)
                      else if wordNext = ''this'' \<and> wordNextNext = ''afternoon''
                      then Inr (st\<lparr>daySpecified := True\<rparr>, l0\<lparr>l_remainder := ''pm'', l_used := 2\<rparr>)
                      else if wordNext = ''this'' \<and> wordNextNext = ''evening''
                      then Inr (st\<lparr>daySpecified := True\<rparr>, l0\<lparr>l_remainder := ''pm'', l_used := 2\<rparr>)
                      else if wordNext = ''at'' \<and> wordNextNext = ''night'' then
                        bind (if strHH \<noteq> [] then py_int strHH else Inr 0)
                          (\<lambda>h. Inr (st, l0\<lparr>l_remainder := (if strHH \<noteq> [] \<and> h > 5 then ''pm''
                                                             else ''am''),
                                             l_used := 2\<rparr>))
                      else otherwise)
                else Inr (st, l0))"

text \<open>The word has no colon: "5 hours", "10 minutes", "3 pm", "0800", "3".\<close>

definition is_hours :: "string \<Rightarrow> string \<Rightarrow> bool" where
  "is_hours wordNext remainder =
     (wordNext = ''hours'' \<or> wordNext = ''hour'' \<or> remainder = ''hours'' \<or> remainder = ''hour'')"

definition bare_time :: "dt_state \<Rightarrow> nat \<Rightarrow> string \<Rightarrow> py_error + (dt_state \<times> time_locals)" where
  "bare_time st idx w =
     (let ws = words st;
          wordPrev = wordPrev_of ws idx;
          wordNext = word_at ws (idx + 1);
          wordNextNext = word_at ws (idx + 2);
          strNum = filter is_digit w;
          remainder0 = filter (\<lambda>c. \<not> is_digit c) w;
          remainder = (if remainder0 = [] then rstrip (lstrip (replace ''.'' [] wordNext))
                       else remainder0);
          l0 = \<lparr>l_strHH = [], l_strMM = [], l_remainder = remainder, l_used = 0, l_isTime = True\<rparr>
      in if remainder = ''pm'' \<or> wordNext = ''pm'' \<or> remainder = ''p.m.'' \<or> wordNext = ''p.m.''
         then Inr (st, l0\<lparr>l_strHH := strNum, l_remainder := ''pm'', l_used := 1\<rparr>)
         else if remainder = ''am'' \<or> wordNext = ''am'' \<or> remainder = ''a.m.'' \<or> wordNext = ''a.m.''
         then Inr (st, l0\<lparr>l_strHH := strNum, l_remainder := ''am'', l_used := 1\<rparr>)
         else
           bind (py_int strNum)
             (\<lambda>n.
                if n > 100 \<and> (wordPrev = ''o'' \<or> wordPrev = ''oh'') then
                  Inr (st\<lparr>military := True\<rparr>,
                       l0\<lparr>l_strHH := str_int (n div 100), l_strMM := str_int (n mod 100),
                          l_used := (if wordNext = ''hours'' then 1 else 0)\<rparr>)
                else if is_hours wordNext remainder \<and> hd w \<noteq> CHR ''0'' \<and> (n < 100 \<or> n > 2400)
                then
                  Inr (st\<lparr>hrOffset := n, hrAbs := Some (- 1), minAbs := Some (- 1)\<rparr>,
                       l0\<lparr>l_used := 2, l_isTime := False\<rparr>)
                else if wordNext = ''minutes'' \<or> wordNext = ''minute'' \<or>
                        remainder = ''minutes'' \<or> remainder = ''minute''
                then
                  Inr (st\<lparr>minOffset := n, hrAbs := Some (- 1), minAbs := Some (- 1)\<rparr>,
                       l0\<lparr>l_used := 2, l_isTime := False\<rparr>)
                else if wordNext = ''seconds'' \<or> wordNext = ''second'' \<or>
                        remainder = ''seconds'' \<or> remainder = ''second''
                then
                  Inr (st\<lparr>secOffset := n, hrAbs := Some (- 1), minAbs := Some (- 1)\<rparr>,
                       l0\<lparr>l_used := 2, l_isTime := False\<rparr>)
                else if n > 100 then
                  Inr (st\<lparr>military := True\<rparr>,
                       l0\<lparr>l_strHH := str_int (n div 100), l_strMM := str_int (n mod 100),
                          l_used := (if is_hours wordNext remainder then 1 else 0)\<rparr>)
                else if starts_digit wordNext then
                  Inr (st\<lparr>military := True\<rparr>,
                       l0\<lparr>l_strHH := strNum, l_strMM := wordNext,
                          l_used := (if is_hours wordNextNext remainder then 2 else 1)\<rparr>)
                else if wordNext = [] \<or> wordNext = oclock \<or>
                        (wordNext = ''in'' \<and> (wordNextNext = ''the'' \<or> wordNextNext = timeQualifier st))
                then
                  (let used1 = (if wordNext = oclock then 1 else 0);
                       wordNextNextNext = word_at ws (idx + 3);
                       in_next = (wordNext = ''in'' \<or> wordNextNext = ''in'');
                       used2 = (if in_next then used1 + (if wordNext = ''in'' then 1 else 2) else used1);
                       qualified = (in_next \<and> wordNextNext \<noteq> [] \<and>
                                    (contains wordNextNext (timeQualifier st) \<or>
                                     contains wordNextNextNext (timeQualifier st)));
                       pm = (qualified \<and> (wordNextNext \<in> set timeQualifiersPM \<or>
                                          wordNextNextNext \<in> set timeQualifiersPM));
                       am = (qualified \<and> (wordNextNext \<in> set timeQualifiersAM \<or>
                                          wordNextNextNext \<in> set timeQualifiersAM));
                       used3 = used2 + (if pm then 1 else 0) + (if am then 1 else 0);
                       remainder1 = (if am then ''am'' else if pm then ''pm'' else remainder)
                   in if timeQualifier st \<noteq> []
                      then Inr (st\<lparr>military := True\<rparr>,
                                l0\<lparr>l_strHH := strNum, l_strMM := ''00'', l_remainder := remainder1,
                                   l_used := used3 + 1\<rparr>)
                      else Inr (st, l0\<lparr>l_strHH := strNum, l_strMM := ''00'',
                                       l_remainder := remainder1, l_used := used3\<rparr>))
                else Inr (st, l0\<lparr>l_isTime := False\<rparr>)))"

text \<open>The test on an hour that carries no marker: the lines that decide between this
  evening and the next morning from the hour of the reference instant.\<close>

definition ambiguous_hour :: "int \<Rightarrow> dt_state \<Rightarrow> string \<Rightarrow> int \<Rightarrow> int \<times> int" where
  "ambiguous_hour now_hour st remainder HH =
     (if \<not> military st \<and>
         remainder \<notin> set [''am'', ''pm'', ''hours'', ''minutes'', ''second'', ''seconds'',
                            ''hour'', ''minute''] \<and>
         (\<not> daySpecified st \<or> dayOffset st < 1)
      then (if now_hour < HH then (HH, dayOffset st)
            else if now_hour < HH + 12 then (HH + 12, dayOffset st)
            else (HH, dayOffset st + 1))
      else (HH, dayOffset st))"

text \<open>From the texts of the hours and minutes to the numbers \<open>HH\<close> and \<open>MM\<close> that the
  validity test reads, with the day offset the test on the ambiguous hour leaves.\<close>

definition hour_minute :: "int \<Rightarrow> dt_state \<Rightarrow> time_locals \<Rightarrow> py_error + (int \<times> int \<times> int)" where
  "hour_minute now_hour st l =
     bind (if l_strHH l \<noteq> [] then py_int (l_strHH l) else Inr 0)
       (\<lambda>HH0.
     bind (if l_strMM l \<noteq> [] then py_int (l_strMM l) else Inr 0)
       (\<lambda>MM.
          let HH1 = (if l_remainder l = ''pm'' \<and> HH0 < 12 then HH0 + 12 else HH0);
              HH2 = (if l_remainder l = ''am'' \<and> HH1 \<ge> 12 then HH1 - 12 else HH1)
          in case ambiguous_hour now_hour st (l_remainder l) HH2 of
               (HH3, dayOffset') \<Rightarrow>
                 Inr (if timeQualifier st \<in> set timeQualifiersPM \<and> HH3 < 12 then HH3 + 12 else HH3,
                      MM, dayOffset')))"

text \<open>The validity test and the assignment of the absolute hour and minute: the state
  and the new value of \<open>used\<close>.\<close>

definition time_validate :: "dt_state \<Rightarrow> time_locals \<Rightarrow> int \<Rightarrow> int \<Rightarrow> dt_state \<times> int" where
  "time_validate st l HH MM =
     (let isTime = (if HH > 24 \<or> MM > 59 then False else l_isTime l);
          used = (if HH > 24 \<or> MM > 59 then 0 else l_used l)
      in if isTime then (st\<lparr>hrAbs := Some HH, minAbs := Some MM\<rparr>, used + 1)
         else (st, used))"

definition digit_parse :: "dt_state \<Rightarrow> nat \<Rightarrow> string \<Rightarrow> py_error + (dt_state \<times> time_locals)" where
  "digit_parse st idx w = (if contains '':'' w then colon_time st idx w else bare_time st idx w)"

definition digit_time :: "int \<Rightarrow> dt_state \<Rightarrow> nat \<Rightarrow> string \<Rightarrow> py_error + (dt_state \<times> int)" where
  "digit_time now_hour st idx w =
     bind (digit_parse st idx w)
       (\<lambda>(st1, l).
          bind (hour_minute now_hour st1 l)
            (\<lambda>(HH, MM, dayOffset').
               Inr (time_validate (st1\<lparr>dayOffset := dayOffset'\<rparr>) l HH MM)))"

text \<open>The branch "half an hour", "quarter hour", "within the hour": it blanks the words
  before the hour itself.\<close>

definition hour_rule :: "dt_state \<Rightarrow> nat \<Rightarrow> dt_state \<times> int" where
  "hour_rule st idx =
     (let ws = words st;
          wordPrevPrev = wordPrevPrev_of ws idx;
          wordPrev = wordPrev_of ws idx;
          st1 = (if wordPrev = ''half'' then st\<lparr>minOffset := 30\<rparr>
                 else if wordPrev = ''quarter'' then st\<lparr>minOffset := 15\<rparr>
                 else if wordPrevPrev = ''quarter'' then
                   (let ws1 = (if idx > 2 \<and> ws ! (idx - 3) \<in> set markers
                               then ws[idx - 3 := []] else ws);
                        specified = (idx > 2 \<and> ws ! (idx - 3) \<in> set markers \<and>
                                     ws1 ! (idx - 3) = ''this'')
                    in st\<lparr>minOffset := 15, words := ws1[idx - 2 := []],
                          daySpecified := (specified \<or> daySpecified st)\<rparr>)
                 else if wordPrev = ''within'' then st\<lparr>hrOffset := 1\<rparr>
                 else st\<lparr>hrOffset := 1\<rparr>);
          st2 = (if wordPrevPrev \<in> set markers
                 then st1\<lparr>words := (words st1)[idx - 2 := []],
                          daySpecified := (wordPrevPrev = ''this'' \<or> daySpecified st1)\<rparr>
                 else st1)
      in (st2\<lparr>words := (words st2)[idx - 1 := []], hrAbs := Some (- 1), minAbs := Some (- 1)\<rparr>, 1))"

text \<open>The chain of branches of the second loop: the state and \<open>used\<close>.\<close>

definition time_rules :: "int \<Rightarrow> dt_state \<Rightarrow> nat \<Rightarrow> py_error + (dt_state \<times> int)" where
  "time_rules now_hour st idx =
     (let ws = words st;
          w = ws ! idx;
          wordPrevPrev = wordPrevPrev_of ws idx;
          wordPrev = wordPrev_of ws idx;
          wordNext = word_at ws (idx + 1);
          wordNextNext = word_at ws (idx + 2)
      in if w = ''noon'' then Inr (st\<lparr>hrAbs := Some 12\<rparr>, 1)
         else if w = ''midnight'' then Inr (st\<lparr>hrAbs := Some 0\<rparr>, 1)
         else if w = ''morning'' then
           Inr (if hrAbs st = None then st\<lparr>hrAbs := Some 8\<rparr> else st, 1)
         else if w = ''afternoon'' then
           Inr (if hrAbs st = None then st\<lparr>hrAbs := Some 15\<rparr> else st, 1)
         else if w = ''evening'' then
           Inr (if hrAbs st = None then st\<lparr>hrAbs := Some 19\<rparr> else st, 1)
         else if w = ''2'' \<and> wordNext = ''of'' \<and>
                 wordNextNext \<in> set [''hours'', ''minutes'', ''seconds''] then
           Inr (if wordNextNext = ''hours'' then st\<lparr>hrOffset := 2\<rparr>
                else if wordNextNext = ''minutes'' then st\<lparr>minOffset := 2\<rparr>
                else st\<lparr>secOffset := 2\<rparr>, 3)
         else if w = ''hour'' \<and> (wordPrev \<in> set markers \<or> wordPrevPrev \<in> set markers) then
           Inr (hour_rule st idx)
         else if w = ''minute'' \<and> wordPrev = ''in'' then
           Inr (st\<lparr>minOffset := 1, words := ws[idx - 1 := []]\<rparr>, 1)
         else if w = ''second'' \<and> wordPrev = ''in'' then
           Inr (st\<lparr>secOffset := 1, words := ws[idx - 1 := []]\<rparr>, 1)
         else if is_digit (hd w) then digit_time now_hour st idx w
         else Inr (st, 0))"

text \<open>\<^verbatim>\<open>for i in range(used): if idx + i >= len(words): break; words[idx + i] = ""\<close>.\<close>

fun blank_from :: "string list \<Rightarrow> nat \<Rightarrow> nat list \<Rightarrow> string list" where
  "blank_from ws idx [] = ws"
| "blank_from ws idx (i # rest) =
     (if idx + i \<ge> length ws then ws else blank_from (ws[idx + i := []]) idx rest)"

text \<open>The block \<^verbatim>\<open>if used > 0\<close> of the second loop. The words before the turn are those
  read at its start; \<open>idx\<close> is lowered by one after "early" or "late".\<close>

definition time_consume :: "dt_state \<Rightarrow> nat \<Rightarrow> int \<Rightarrow> string \<Rightarrow> string \<Rightarrow> py_error + dt_state"
  where
  "time_consume st idx0 used wordPrev wordPrevPrev =
     (if used > 0 then
        (let ws1 = blank_from (words st) idx0 [0..<nat used]
         in bind (if wordPrev = ''o'' \<or> wordPrev = ''oh''
                  then (case index_of wordPrev ws1 of
                          None \<Rightarrow> Inl ValueError
                        | Some i \<Rightarrow> Inr (ws1[i := []]))
                  else Inr ws1)
              (\<lambda>ws2.
                 bind (if wordPrev = ''early'' \<or> wordPrev = ''late''
                       then py_set ws2 (int idx0 - 1) [] else Inr ws2)
                   (\<lambda>ws3.
                      let st1 = (if wordPrev = ''early'' then st\<lparr>hrOffset := - 1\<rparr>
                                 else if wordPrev = ''late'' then st\<lparr>hrOffset := 1\<rparr> else st);
                          idx = (if wordPrev = ''early'' \<or> wordPrev = ''late'' then int idx0 - 1
                                 else int idx0)
                      in bind (if idx > 0 \<and> wordPrev \<in> set markers
                               then py_set ws3 (idx - 1) [] else Inr ws3)
                           (\<lambda>ws4.
                              bind (if idx > 1 \<and> wordPrevPrev \<in> set markers
                                    then py_set ws4 (idx - 2) [] else Inr ws4)
                                (\<lambda>ws5.
                                   Inr (st1\<lparr>words := ws5, found := True,
                                           daySpecified :=
                                             ((idx > 0 \<and> wordPrev \<in> set markers \<and> wordPrev = ''this'') \<or>
                                              (idx > 1 \<and> wordPrevPrev \<in> set markers \<and>
                                               wordPrevPrev = ''this'') \<or>
                                              daySpecified st1)\<rparr>))))))
      else Inr st)"

definition time_step :: "int \<Rightarrow> dt_state \<Rightarrow> nat \<Rightarrow> py_error + dt_state" where
  "time_step now_hour st idx =
     (if words st ! idx = [] then Inr st
      else bind (time_rules now_hour st idx)
             (\<lambda>(st1, used).
                time_consume st1 idx used (wordPrev_of (words st) idx)
                  (wordPrevPrev_of (words st) idx)))"

fun time_loop :: "int \<Rightarrow> nat list \<Rightarrow> dt_state \<Rightarrow> py_error + dt_state" where
  "time_loop now_hour [] st = Inr st"
| "time_loop now_hour (idx # rest) st =
     (case time_step now_hour st idx of
        Inl e \<Rightarrow> Inl e
      | Inr st' \<Rightarrow> time_loop now_hour rest st')"

subsection \<open>The result\<close>

text \<open>The function \<^verbatim>\<open>date_found\<close> that the source defines. \<^verbatim>\<open>dayOffset is True\<close> never
  holds, since \<open>dayOffset\<close> is \<^verbatim>\<open>False\<close> or an integer.\<close>

definition date_found :: "dt_state \<Rightarrow> bool" where
  "date_found st =
     (found st \<or>
      (datestr st \<noteq> [] \<or> yearOffset st \<noteq> 0 \<or> monthOffset st \<noteq> 0 \<or> False \<or>
       hrOffset st \<noteq> 0 \<or> (hrAbs st \<noteq> None \<and> hrAbs st \<noteq> Some 0) \<or> minOffset st \<noteq> 0 \<or>
       (minAbs st \<noteq> None \<and> minAbs st \<noteq> Some 0) \<or> secOffset st \<noteq> 0))"

text \<open>The source tests \<^verbatim>\<open>if not date_found:\<close>, on the function itself and not on its
  result: a function object is true.\<close>

definition function_truthy :: "('a \<Rightarrow> 'b) \<Rightarrow> bool" where
  "function_truthy f = True"

definition replace_date :: "datetime \<Rightarrow> int \<Rightarrow> int \<Rightarrow> int \<Rightarrow> py_error + datetime" where
  "replace_date d y m dd =
     (if valid_date y m dd then Inr (d\<lparr>dt_year := y, dt_month := m, dt_day := dd\<rparr>)
      else Inl ValueError)"

definition midnight :: "datetime \<Rightarrow> datetime" where
  "midnight d = d\<lparr>dt_hour := 0, dt_minute := 0, dt_second := 0\<rparr>"

text \<open>The date from which the offsets are applied: the captured date, in this year
  or the next when it has no year, or the reference instant.\<close>

definition base_date :: "datetime \<Rightarrow> dt_state \<Rightarrow> py_error + datetime" where
  "base_date dateNow st =
     (let extractedDate = dateNow\<lparr>dt_microsecond := 0\<rparr>;
          currentYear = dt_year dateNow
      in if datestr st \<noteq> [] then
           bind (parse_datestr (datestr st))
             (\<lambda>(ty, tm, td).
                let extractedDate = midnight extractedDate
                in if \<not> hasYear st then
                     bind (replace_date (midnight extractedDate\<lparr>dt_microsecond := 0\<rparr>)
                             (dt_year extractedDate) tm td)
                       (\<lambda>temp.
                          if dt_less extractedDate temp
                          then replace_date extractedDate currentYear tm td
                          else replace_date extractedDate (currentYear + 1) tm td)
                   else replace_date extractedDate ty tm td)
         else if hrOffset st = 0 \<and> minOffset st = 0 \<and> secOffset st = 0
         then Inr (midnight extractedDate)
         else Inr extractedDate)"

definition add_if :: "bool \<Rightarrow> relativedelta \<Rightarrow> datetime \<Rightarrow> py_error + datetime" where
  "add_if c rd d = (if c then add_relativedelta d rd else Inr d)"

definition int_or_0 :: "int option \<Rightarrow> int" where
  "int_or_0 x = (case x of None \<Rightarrow> 0 | Some n \<Rightarrow> n)"

definition compose_date :: "datetime \<Rightarrow> time_of_day option \<Rightarrow> dt_state \<Rightarrow> py_error + datetime"
  where
  "compose_date dateNow default_time st =
     bind (base_date dateNow st) (\<lambda>d0.
     bind (add_if (yearOffset st \<noteq> 0) (no_delta\<lparr>rd_years := yearOffset st\<rparr>) d0) (\<lambda>d1.
     bind (add_if (monthOffset st \<noteq> 0) (no_delta\<lparr>rd_months := monthOffset st\<rparr>) d1) (\<lambda>d2.
     bind (add_if (dayOffset st \<noteq> 0) (no_delta\<lparr>rd_days := dayOffset st\<rparr>) d2) (\<lambda>d3.
     bind (if hrAbs st \<noteq> Some (- 1) \<and> minAbs st \<noteq> Some (- 1) then
             (let (h, m) = (if hrAbs st = None \<and> minAbs st = None \<and> default_time \<noteq> None
                            then (case default_time of
                                    Some t \<Rightarrow> (t_hour t, t_minute t)
                                  | None \<Rightarrow> (0, 0))
                            else (int_or_0 (hrAbs st), int_or_0 (minAbs st)))
              in bind (add_relativedelta d3 (no_delta\<lparr>rd_hours := h, rd_minutes := m\<rparr>))
                   (\<lambda>d. if (h \<noteq> 0 \<or> m \<noteq> 0) \<and> datestr st = [] \<and> \<not> daySpecified st \<and>
                            dt_less d dateNow
                         then add_relativedelta d (no_delta\<lparr>rd_days := 1\<rparr>)
                         else Inr d))
           else Inr d3) (\<lambda>d4.
     bind (add_if (hrOffset st \<noteq> 0) (no_delta\<lparr>rd_hours := hrOffset st\<rparr>) d4) (\<lambda>d5.
     bind (add_if (minOffset st \<noteq> 0) (no_delta\<lparr>rd_minutes := minOffset st\<rparr>) d5) (\<lambda>d6.
     add_if (secOffset st \<noteq> 0) (no_delta\<lparr>rd_seconds := secOffset st\<rparr>) d6)))))))"

text \<open>The last loop: an "and" between two blanked words is blanked. At the first word
  the word before is the last one, and at the last word the word after does not
  exist.\<close>

fun and_loop :: "nat list \<Rightarrow> string list \<Rightarrow> py_error + string list" where
  "and_loop [] ws = Inr ws"
| "and_loop (idx # rest) ws =
     (if ws ! idx = ''and'' then
        bind (py_get ws (int idx - 1))
          (\<lambda>p. if p = [] then
                  bind (py_get ws (int idx + 1))
                    (\<lambda>n. and_loop rest (if n = [] then ws[idx := []] else ws))
                else and_loop rest ws)
      else and_loop rest ws)"

definition initial_state :: "string list \<Rightarrow> dt_state" where
  "initial_state ws =
     \<lparr>words = ws, found = False, daySpecified = False, dayOffset = 0, monthOffset = 0,
      yearOffset = 0, fromFlag = False, datestr = [], hasYear = False, timeQualifier = [],
      hrOffset = 0, minOffset = 0, secOffset = 0, hrAbs = None, minAbs = None,
      military = False\<rparr>"

text \<open>\<^verbatim>\<open>extract_datetime_en(string, dateNow, default_time)\<close>: \<^verbatim>\<open>None\<close>, or the date-time
  and the remaining text.\<close>

definition extract_datetime_en :: "lexicon \<Rightarrow> string \<Rightarrow> datetime option \<Rightarrow> time_of_day option
    \<Rightarrow> py_error + (datetime \<times> string) option" where
  "extract_datetime_en lx string dateNow default_time =
     (case (if string = [] then None else dateNow) of
        None \<Rightarrow> Inr None
      | Some now \<Rightarrow>
            bind (clean_string string)
              (\<lambda>ws.
                 bind (date_loop lx (weekday_w now) [0..<length ws] (initial_state ws))
                   (\<lambda>swept.
                      case swept of
                        ReturnedAt resultStr \<Rightarrow> Inr (Some (now\<lparr>dt_microsecond := 0\<rparr>, resultStr))
                      | Swept st1 \<Rightarrow>
                          bind (time_loop (dt_hour now) [0..<length ws] st1)
                            (\<lambda>st2.
                               if \<not> function_truthy date_found then Inr None
                               else
                                 bind (compose_date now default_time st2)
                                   (\<lambda>extractedDate.
                                      bind (and_loop [0..<length ws] (words st2))
                                        (\<lambda>ws'.
                                           Inr (Some (extractedDate,
                                                      join '' '' (split (join '' '' ws'))))))))))"

section \<open>The claims about the date-time extractor\<close>

definition reference_afternoon :: datetime where
  "reference_afternoon =
     \<lparr>dt_year = 2017, dt_month = 6, dt_day = 27, dt_hour = 14, dt_minute = 0, dt_second = 0,
      dt_microsecond = 0\<rparr>"

definition reference_night :: datetime where
  "reference_night =
     \<lparr>dt_year = 2017, dt_month = 6, dt_day = 27, dt_hour = 2, dt_minute = 0, dt_second = 0,
      dt_microsecond = 0\<rparr>"

subsection \<open>The guards\<close>

text \<open>
  Claim C9. \<^verbatim>\<open>extract_datetime\<close> returns the absent result when the text is the empty
  string, and for any text when the reference instant is absent.
\<close>

theorem C9_empty_text_or_no_reference:
  "extract_datetime_en lx [] dateNow default_time = Inr None \<and>
   extract_datetime_en lx string None default_time = Inr None"
  by (simp add: extract_datetime_en_def)

subsection \<open>A text without a date or a time\<close>

lemma bind_eq_Inr:
  "bind m f = Inr y \<longleftrightarrow> (\<exists>x. m = Inr x \<and> f x = Inr y)"
  by (cases m) auto

lemma extract_datetime_never_absent:
  assumes "string \<noteq> []"
  shows "extract_datetime_en lx string (Some now) default_time \<noteq> Inr None"
  unfolding extract_datetime_en_def using assms
  by (auto simp: function_truthy_def bind_eq_Inr split: date_result.splits)

lemma datetime_hello_world:
  "extract_datetime_en lexicon_en ''hello world'' (Some reference_afternoon) None
     = Inr (Some (\<lparr>dt_year = 2017, dt_month = 6, dt_day = 27, dt_hour = 0, dt_minute = 0,
                    dt_second = 0, dt_microsecond = 0\<rparr>, ''hello world''))"
  by code_simp

text \<open>
  Claim C1 says that a text with no date or time signal gives the absent result. The
  code does not: the test \<^verbatim>\<open>if not date_found:\<close> names the function without calling
  it, so it never holds, and after the guards on the arguments no path returns
  \<^verbatim>\<open>None\<close>. For "hello world", where the function \<open>date_found\<close> is false on the final
  state of the two loops, the result is the reference day at midnight with the whole
  text as the remainder.
\<close>

theorem C1_no_signal_returns_datetime:
  "extract_datetime_en lexicon_en ''hello world'' (Some reference_afternoon) None
     = Inr (Some (\<lparr>dt_year = 2017, dt_month = 6, dt_day = 27, dt_hour = 0, dt_minute = 0,
                    dt_second = 0, dt_microsecond = 0\<rparr>, ''hello world'')) \<and>
   extract_datetime_en lexicon_en ''hello world'' (Some reference_afternoon) None \<noteq> Inr None"
  using datetime_hello_world by simp

subsection \<open>The hour without a marker\<close>

lemma datetime_meet_me_at_3_afternoon:
  "extract_datetime_en lexicon_en ''meet me at 3'' (Some reference_afternoon) None
     = Inr (Some (\<lparr>dt_year = 2017, dt_month = 6, dt_day = 27, dt_hour = 15, dt_minute = 0,
                    dt_second = 0, dt_microsecond = 0\<rparr>, ''meet me''))"
  by code_simp

lemma datetime_meet_me_at_3_night:
  "extract_datetime_en lexicon_en ''meet me at 3'' (Some reference_night) None
     = Inr (Some (\<lparr>dt_year = 2017, dt_month = 6, dt_day = 27, dt_hour = 3, dt_minute = 0,
                    dt_second = 0, dt_microsecond = 0\<rparr>, ''meet me''))"
  by code_simp

text \<open>
  Claim C2. For a parsed hour \<open>H\<close> with no am or pm marker, no military marking, no day
  specified (and no afternoon or evening qualifier saved by the date phase): if the
  hour of the reference instant is less than \<open>H\<close> the hour stays \<open>H\<close>; else if it is less
  than \<open>H + 12\<close> the hour is \<open>H + 12\<close>; else the day offset grows by one. With the
  reference hour 14 "meet me at 3" gives the hour 15, and with the reference hour 2
  it gives the hour 3.
\<close>

theorem C2_ambiguous_hour:
  assumes "\<not> military st" and "\<not> daySpecified st"
    and "timeQualifier st \<notin> set timeQualifiersPM"
    and "l_remainder l \<notin> set [''am'', ''pm'', ''hours'', ''minutes'', ''second'', ''seconds'',
                                 ''hour'', ''minute'']"
    and "l_strHH l \<noteq> []" and "py_int (l_strHH l) = Inr H" and "l_strMM l = ''00''"
  shows "hour_minute now_hour st l
           = Inr (if now_hour < H then H else if now_hour < H + 12 then H + 12 else H,
                  0,
                  if now_hour < H + 12 then dayOffset st else dayOffset st + 1) \<and>
         extract_datetime_en lexicon_en ''meet me at 3'' (Some reference_afternoon) None
           = Inr (Some (reference_afternoon\<lparr>dt_hour := 15\<rparr>, ''meet me'')) \<and>
         extract_datetime_en lexicon_en ''meet me at 3'' (Some reference_night) None
           = Inr (Some (reference_night\<lparr>dt_hour := 3\<rparr>, ''meet me''))"
proof -
  have mm: "py_int ''00'' = Inr 0" by code_simp
  have "hour_minute now_hour st l
          = Inr (if now_hour < H then H else if now_hour < H + 12 then H + 12 else H,
                 0,
                 if now_hour < H + 12 then dayOffset st else dayOffset st + 1)"
    using assms mm by (simp add: hour_minute_def ambiguous_hour_def Let_def)
  then show ?thesis
    using datetime_meet_me_at_3_afternoon datetime_meet_me_at_3_night
    by (simp add: reference_afternoon_def reference_night_def)
qed

lemma py_int_3: "py_int ''3'' = Inr 3"
  by code_simp

theorem C2_ambiguous_hour_witness:
  "hour_minute 14 (initial_state [''meet'', ''me'', ''at'', ''3''])
     \<lparr>l_strHH = ''3'', l_strMM = ''00'', l_remainder = [], l_used = 0, l_isTime = True\<rparr>
     = Inr (15, 0, 0) \<and>
   hour_minute 2 (initial_state [''meet'', ''me'', ''at'', ''3''])
     \<lparr>l_strHH = ''3'', l_strMM = ''00'', l_remainder = [], l_used = 0, l_isTime = True\<rparr>
     = Inr (3, 0, 0) \<and>
   hour_minute 20 (initial_state [''meet'', ''me'', ''at'', ''3''])
     \<lparr>l_strHH = ''3'', l_strMM = ''00'', l_remainder = [], l_used = 0, l_isTime = True\<rparr>
     = Inr (3, 0, 1)"
  using
    C2_ambiguous_hour [of "initial_state [''meet'', ''me'', ''at'', ''3'']"
      "\<lparr>l_strHH = ''3'', l_strMM = ''00'', l_remainder = [], l_used = 0, l_isTime = True\<rparr>" 3 14]
    C2_ambiguous_hour [of "initial_state [''meet'', ''me'', ''at'', ''3'']"
      "\<lparr>l_strHH = ''3'', l_strMM = ''00'', l_remainder = [], l_used = 0, l_isTime = True\<rparr>" 3 2]
    C2_ambiguous_hour [of "initial_state [''meet'', ''me'', ''at'', ''3'']"
      "\<lparr>l_strHH = ''3'', l_strMM = ''00'', l_remainder = [], l_used = 0, l_isTime = True\<rparr>" 3 20]
    py_int_3
  by (simp add: initial_state_def timeQualifiersPM_def)

subsection \<open>The weekday names\<close>

lemma from_rule_other:
  "w \<noteq> ''from'' \<Longrightarrow> w \<noteq> ''after'' \<Longrightarrow>
   from_rule today w wordNext wordNextNext st start used = (st, start, used)"
  by (simp add: from_rule_def)

lemma date_consume_dayOffset:
  "date_consume st start used = Inr st' \<Longrightarrow> dayOffset st' = dayOffset st"
  by (auto simp: date_consume_def bind_eq_Inr Let_def split: if_splits)

lemma weekday_cases:
  "d < 7 \<Longrightarrow> d = 0 \<or> d = 1 \<or> d = 2 \<or> d = 3 \<or> d = 4 \<or> d = 5 \<or> d = (6::nat)"
  by arith

lemma weekday_rule:
  assumes "d < 7" and "\<not> fromFlag st"
    and "word_at (words st) (idx + 1) \<notin> set year_multiples"
  shows "date_rules lx today st idx (days ! d)
           = Inr (Went (st\<lparr>dayOffset :=
                          (let offset = (int d + 1) - today;
                               offset = (if offset < 0 then offset + 7 else offset)
                           in if wordPrev_of (words st) idx = ''next'' then offset + 7
                              else if wordPrev_of (words st) idx = ''last'' then offset - 7
                              else offset)\<rparr>)
                   (if wordPrev_of (words st) idx = ''next'' \<or> wordPrev_of (words st) idx = ''last''
                    then int idx - 1 else int idx)
                   (if wordPrev_of (words st) idx = ''next'' \<or> wordPrev_of (words st) idx = ''last''
                    then 2 else 1))"
  using weekday_cases [OF assms(1)] assms(2,3)
  by (elim disjE)
     (simp_all add: date_rules_def date_rules_tail_def days_def timeQualifiersList_def
        timeQualifiersAM_def timeQualifiersPM_def Let_def)

lemma days_clean:
  "list_all (\<lambda>w. clean_string w = Inr [w] \<and> rstrip_char CHR ''s'' w = w \<and> w \<noteq> []) days"
  by code_simp

lemma days_nth:
  assumes "d < 7"
  shows "clean_string (days ! d) = Inr [days ! d]" "rstrip_char CHR ''s'' (days ! d) = days ! d"
    "days ! d \<noteq> []"
proof -
  have "d < length days" using assms by (simp add: days_def)
  with days_clean show "clean_string (days ! d) = Inr [days ! d]"
    "rstrip_char CHR ''s'' (days ! d) = days ! d" "days ! d \<noteq> []"
    by (simp_all add: list_all_length)
qed

lemma join_split_nil: "join '' '' (split []) = []"
  by code_simp

text \<open>The turn of the first loop on a text that is one weekday name.\<close>

lemma step_single_day:
  assumes "d < 7"
  shows "date_step lx today (initial_state [days ! d]) 0
           = Inr (Swept ((initial_state [[]])
                   \<lparr>dayOffset := (if (int d + 1) - today < 0 then (int d + 1) - today + 7
                                  else (int d + 1) - today),
                    found := True, daySpecified := True\<rparr>))"
proof -
  define S where "S = initial_state [days ! d]"
  have a: "\<not> fromFlag S" by (simp add: S_def initial_state_def)
  have b: "word_at (words S) (0 + 1) \<notin> set year_multiples"
    by (simp add: S_def initial_state_def word_at_def year_multiples_def)
  have ws: "words S = [days ! d]" by (simp add: S_def initial_state_def)
  have prev: "wordPrev_of (words S) 0 = []" by (simp add: wordPrev_of_def)
  have day: "days ! d \<noteq> ''from''" "days ! d \<noteq> ''after''"
    using weekday_cases [OF assms] by (elim disjE; simp add: days_def)+
  have rules: "date_rules lx today S 0 (days ! d)
      = Inr (Went (S\<lparr>dayOffset := (if (int d + 1) - today < 0 then (int d + 1) - today + 7
                                  else (int d + 1) - today)\<rparr>) 0 1)"
    using weekday_rule [OF assms a b, of lx today] by (simp add: prev Let_def)
  have consume: "date_consume (S\<lparr>dayOffset := x\<rparr>) 0 1
      = Inr ((initial_state [[]])\<lparr>dayOffset := x, found := True, daySpecified := True\<rparr>)" for x
    by (simp add: date_consume_def S_def initial_state_def py_set_def py_index_def)
  have "date_step lx today S 0
           = Inr (Swept ((initial_state [[]])
                   \<lparr>dayOffset := (if (int d + 1) - today < 0 then (int d + 1) - today + 7
                                  else (int d + 1) - today),
                    found := True, daySpecified := True\<rparr>))"
    unfolding date_step_def Let_def ws
    using days_nth [OF assms] day
    by (simp add: rules from_rule_other consume)
  then show ?thesis by (simp add: S_def)
qed

text \<open>The whole extractor on a text that is one weekday name, for every reference
  instant: the day offset that reaches the composition of the result is computed from
  the weekday number of the reference instant.\<close>

lemma single_day_general:
  assumes "d < 7"
  shows "extract_datetime_en lx (days ! d) (Some now) default_time
           = bind (compose_date now default_time
                     ((initial_state [[]])
                        \<lparr>dayOffset := (if (int d + 1) - weekday_w now < 0
                                       then (int d + 1) - weekday_w now + 7
                                       else (int d + 1) - weekday_w now),
                         found := True, daySpecified := True\<rparr>))
               (\<lambda>extractedDate. Inr (Some (extractedDate, [])))"
proof -
  define S where "S = (initial_state [[]])
              \<lparr>dayOffset := (if (int d + 1) - weekday_w now < 0
                             then (int d + 1) - weekday_w now + 7
                             else (int d + 1) - weekday_w now),
               found := True, daySpecified := True\<rparr>"
  have w: "words S = [[]]" by (simp add: S_def initial_state_def)
  have dl: "date_loop lx (weekday_w now) [0..<Suc 0] (initial_state [days ! d])
              = Inr (Swept S)"
    by (simp add: step_single_day [OF assms] S_def)
  have tl: "time_loop (dt_hour now) [0..<Suc 0] S = Inr S"
    by (simp add: time_step_def w)
  have al: "and_loop [0..<Suc 0] (words S) = Inr [[]]"
    by (simp add: w)
  have "extract_datetime_en lx (days ! d) (Some now) default_time
           = bind (compose_date now default_time S)
               (\<lambda>extractedDate. Inr (Some (extractedDate, [])))"
    unfolding extract_datetime_en_def days_nth(1) [OF assms]
    using days_nth(3) [OF assms]
    by (simp add: dl tl al function_truthy_def join_split_nil del: upt_Suc)
  then show ?thesis by (simp only: S_def)
qed

text \<open>The weekday number of the reference instant is that of \<^verbatim>\<open>strftime("%w")\<close>:
  Sunday is 0. The 25th of June 2017 was a Sunday.\<close>

lemma weekday_w_week:
  "map (\<lambda>d. weekday_w (reference_afternoon\<lparr>dt_day := d\<rparr>)) [25, 26, 27, 28, 29, 30]
     = [0, 1, 2, 3, 4, 5] \<and>
   weekday_w (reference_afternoon\<lparr>dt_month := 7, dt_day := 1\<rparr>) = 6"
  by code_simp

lemma datetime_friday:
  "extract_datetime_en lexicon_en ''friday'' (Some reference_afternoon) None
     = Inr (Some (\<lparr>dt_year = 2017, dt_month = 6, dt_day = 30, dt_hour = 0, dt_minute = 0,
                    dt_second = 0, dt_microsecond = 0\<rparr>, []))"
  by code_simp

lemma datetime_monday:
  "extract_datetime_en lexicon_en ''monday'' (Some reference_afternoon) None
     = Inr (Some (\<lparr>dt_year = 2017, dt_month = 7, dt_day = 3, dt_hour = 0, dt_minute = 0,
                    dt_second = 0, dt_microsecond = 0\<rparr>, []))"
  by code_simp

lemma datetime_next_tuesday:
  "extract_datetime_en lexicon_en ''next tuesday'' (Some reference_afternoon) None
     = Inr (Some (\<lparr>dt_year = 2017, dt_month = 7, dt_day = 4, dt_hour = 0, dt_minute = 0,
                    dt_second = 0, dt_microsecond = 0\<rparr>, []))"
  by code_simp

lemma datetime_last_monday:
  "extract_datetime_en lexicon_en ''last monday'' (Some reference_afternoon) None
     = Inr (Some (\<lparr>dt_year = 2017, dt_month = 6, dt_day = 26, dt_hour = 0, dt_minute = 0,
                    dt_second = 0, dt_microsecond = 0\<rparr>, []))"
  by code_simp

text \<open>
  Claim C6. For a weekday name recognised in the date phase, with the from-flag not
  set, the day offset is the index of the name in the list of days plus one, minus
  the weekday number of the reference instant (Sunday is 0), plus 7 if that is
  negative, plus 7 more when the word before is "next" and minus 7 when it is "last".
  The rest of the turn leaves this offset as it is. The extractor takes the weekday
  number from the reference instant: on a text that is one weekday name the offset
  that reaches the result is the one above, for every reference instant. The 25th of
  June 2017 was a Sunday and has the number 0, and the six days after it have the
  numbers 1 to 6. With the reference instant Tuesday the 27th of June 2017, "friday"
  is the 30th of June (offset 3), "monday" is the 3rd of July (offset -1 + 7), "next
  tuesday" the 4th of July (offset 0 + 7) and "last monday" the 26th of June (offset
  -1 + 7 - 7).
\<close>

theorem C6_weekday_offset:
  assumes "d < 7" and "\<not> fromFlag st"
    and "word_at (words st) (idx + 1) \<notin> set year_multiples"
    and "rstrip_char CHR ''s'' (words st ! idx) = days ! d"
  shows "(\<exists>st1 start used.
            date_rules lx (weekday_w now) st idx (days ! d) = Inr (Went st1 start used) \<and>
            dayOffset st1
              = (let offset = (int d + 1) - weekday_w now;
                     offset = (if offset < 0 then offset + 7 else offset)
                 in if wordPrev_of (words st) idx = ''next'' then offset + 7
                    else if wordPrev_of (words st) idx = ''last'' then offset - 7
                    else offset)) \<and>
         (\<forall>st'. date_step lx (weekday_w now) st idx = Inr (Swept st') \<longrightarrow>
            dayOffset st'
              = (let offset = (int d + 1) - weekday_w now;
                     offset = (if offset < 0 then offset + 7 else offset)
                 in if wordPrev_of (words st) idx = ''next'' then offset + 7
                    else if wordPrev_of (words st) idx = ''last'' then offset - 7
                    else offset)) \<and>
         extract_datetime_en lx (days ! d) (Some now) default_time
           = bind (compose_date now default_time
                     ((initial_state [[]])
                        \<lparr>dayOffset := (let offset = (int d + 1) - weekday_w now
                                       in if offset < 0 then offset + 7 else offset),
                         found := True, daySpecified := True\<rparr>))
               (\<lambda>extractedDate. Inr (Some (extractedDate, []))) \<and>
         map (\<lambda>d. weekday_w (reference_afternoon\<lparr>dt_day := d\<rparr>)) [25, 26, 27, 28, 29, 30]
           = [0, 1, 2, 3, 4, 5] \<and>
         weekday_w (reference_afternoon\<lparr>dt_month := 7, dt_day := 1\<rparr>) = 6 \<and>
         extract_datetime_en lexicon_en ''friday'' (Some reference_afternoon) None
           = Inr (Some (reference_afternoon\<lparr>dt_day := 30, dt_hour := 0\<rparr>, [])) \<and>
         extract_datetime_en lexicon_en ''monday'' (Some reference_afternoon) None
           = Inr (Some (reference_afternoon\<lparr>dt_month := 7, dt_day := 3, dt_hour := 0\<rparr>, [])) \<and>
         extract_datetime_en lexicon_en ''next tuesday'' (Some reference_afternoon) None
           = Inr (Some (reference_afternoon\<lparr>dt_month := 7, dt_day := 4, dt_hour := 0\<rparr>, [])) \<and>
         extract_datetime_en lexicon_en ''last monday'' (Some reference_afternoon) None
           = Inr (Some (reference_afternoon\<lparr>dt_day := 26, dt_hour := 0\<rparr>, []))"
proof -
  let ?off = "let offset = (int d + 1) - weekday_w now;
                  offset = (if offset < 0 then offset + 7 else offset)
              in if wordPrev_of (words st) idx = ''next'' then offset + 7
                 else if wordPrev_of (words st) idx = ''last'' then offset - 7
                 else offset"
  note rule = weekday_rule [OF assms(1-3), of lx "weekday_w now"]
  have first: "\<exists>st1 start used.
      date_rules lx (weekday_w now) st idx (days ! d) = Inr (Went st1 start used) \<and>
      dayOffset st1 = ?off"
    unfolding rule by simp
  have day: "days ! d \<noteq> ''from'' \<and> days ! d \<noteq> ''after'' \<and> days ! d \<noteq> []"
    using weekday_cases [OF assms(1)] by (elim disjE) (simp_all add: days_def)
  have ne: "words st ! idx \<noteq> []"
    using assms(4) day by (auto simp: rstrip_char_def)
  have second: "dayOffset st' = ?off"
    if step: "date_step lx (weekday_w now) st idx = Inr (Swept st')" for st'
  proof -
    from step ne assms(4) rule day obtain start used where
      "date_consume (st\<lparr>dayOffset := ?off\<rparr>) start used = Inr st'"
      by (auto simp: date_step_def Let_def bind_eq_Inr from_rule_other)
    from date_consume_dayOffset [OF this] show ?thesis by simp
  qed
  have third: "extract_datetime_en lx (days ! d) (Some now) default_time
           = bind (compose_date now default_time
                     ((initial_state [[]])
                        \<lparr>dayOffset := (let offset = (int d + 1) - weekday_w now
                                       in if offset < 0 then offset + 7 else offset),
                         found := True, daySpecified := True\<rparr>))
               (\<lambda>extractedDate. Inr (Some (extractedDate, [])))"
    using single_day_general [OF assms(1), of lx now default_time] by (simp add: Let_def)
  have examples:
    "extract_datetime_en lexicon_en ''friday'' (Some reference_afternoon) None
       = Inr (Some (reference_afternoon\<lparr>dt_day := 30, dt_hour := 0\<rparr>, []))"
    "extract_datetime_en lexicon_en ''monday'' (Some reference_afternoon) None
       = Inr (Some (reference_afternoon\<lparr>dt_month := 7, dt_day := 3, dt_hour := 0\<rparr>, []))"
    "extract_datetime_en lexicon_en ''next tuesday'' (Some reference_afternoon) None
       = Inr (Some (reference_afternoon\<lparr>dt_month := 7, dt_day := 4, dt_hour := 0\<rparr>, []))"
    "extract_datetime_en lexicon_en ''last monday'' (Some reference_afternoon) None
       = Inr (Some (reference_afternoon\<lparr>dt_day := 26, dt_hour := 0\<rparr>, []))"
    using datetime_friday datetime_monday datetime_next_tuesday datetime_last_monday
    by (simp_all add: reference_afternoon_def)
  from first second third weekday_w_week examples show ?thesis by blast
qed

lemma weekday_w_reference: "weekday_w reference_afternoon = 2"
  by code_simp

lemma step_next_tuesday:
  "date_step lexicon_en 2 (initial_state [''next'', ''tuesday'']) 1
     = Inr (Swept ((initial_state [[], []])\<lparr>dayOffset := 7, found := True, daySpecified := True\<rparr>))"
  by code_simp

lemma rstrip_tuesday:
  "rstrip_char CHR ''s'' (words (initial_state [''next'', ''tuesday'']) ! 1) = days ! 1"
  by code_simp

lemma compose_tuesday:
  "compose_date reference_afternoon None
     ((initial_state [[]])\<lparr>dayOffset := 0, found := True, daySpecified := True\<rparr>)
     = Inr (reference_afternoon\<lparr>dt_hour := 0\<rparr>)"
  by code_simp

theorem C6_weekday_offset_witness:
  "weekday_w reference_afternoon = 2 \<and>
   date_step lexicon_en (weekday_w reference_afternoon) (initial_state [''next'', ''tuesday'']) 1
     = Inr (Swept ((initial_state [[], []])\<lparr>dayOffset := 7, found := True, daySpecified := True\<rparr>)) \<and>
   (\<exists>st1 start used.
      date_rules lexicon_en (weekday_w reference_afternoon) (initial_state [''next'', ''tuesday'']) 1
          (days ! 1)
        = Inr (Went st1 start used) \<and> dayOffset st1 = 7) \<and>
   extract_datetime_en lexicon_en ''tuesday'' (Some reference_afternoon) None
     = Inr (Some (reference_afternoon\<lparr>dt_hour := 0\<rparr>, []))"
proof -
  have a: "(1::nat) < 7" by simp
  have b: "\<not> fromFlag (initial_state [''next'', ''tuesday''])"
    by (simp add: initial_state_def)
  have c: "word_at (words (initial_state [''next'', ''tuesday''])) (1 + 1) \<notin> set year_multiples"
    by (simp add: initial_state_def word_at_def year_multiples_def)
  have prev: "wordPrev_of (words (initial_state [''next'', ''tuesday''])) 1 = ''next''"
    by (simp add: initial_state_def wordPrev_of_def)
  have tuesday: "days ! 1 = ''tuesday''" by (simp add: days_def)
  from C6_weekday_offset [OF a b c rstrip_tuesday, of lexicon_en reference_afternoon None]
    prev step_next_tuesday weekday_w_reference compose_tuesday tuesday
  show ?thesis by simp
qed

subsection \<open>The validity of the hour and the minute\<close>

text \<open>A result that is an error, or a value with the property \<open>Q\<close>: the rules follow
  the structure of a definition, leaf by leaf.\<close>

definition returns :: "py_error + 'a \<Rightarrow> ('a \<Rightarrow> bool) \<Rightarrow> bool" where
  "returns m Q = (case m of Inl e \<Rightarrow> True | Inr x \<Rightarrow> Q x)"

lemma returns_Inr: "Q x \<Longrightarrow> returns (Inr x) Q"
  by (simp add: returns_def)

lemma returns_Inl: "returns (Inl e) Q"
  by (simp add: returns_def)

lemma returns_any: "(\<And>x. Q x) \<Longrightarrow> returns m Q"
  by (cases m) (simp_all add: returns_def)

lemma returns_bind: "returns m (\<lambda>x. returns (f x) Q) \<Longrightarrow> returns (bind m f) Q"
  by (cases m) (simp_all add: returns_def)

lemma returns_if: "returns a Q \<Longrightarrow> returns b Q \<Longrightarrow> returns (if c then a else b) Q"
  by simp

lemma returns_case_prod:
  "(\<And>a b. returns (f a b) Q) \<Longrightarrow> returns (case p of (a, b) \<Rightarrow> f a b) Q"
  by (cases p) simp

lemma returns_case_triple:
  "(\<And>a b c. returns (f a b c) Q) \<Longrightarrow> returns (case p of (a, b, c) \<Rightarrow> f a b c) Q"
  by (cases p) simp

lemma returnsD: "returns m Q \<Longrightarrow> m = Inr x \<Longrightarrow> Q x"
  by (simp add: returns_def)

lemma colon_time_returns:
  "returns (colon_time st idx w)
     (\<lambda>(st1, l). words st1 = words st \<and> found st1 = found st \<and> hrAbs st1 = hrAbs st \<and>
                  minAbs st1 = minAbs st)"
  unfolding colon_time_def Let_def
  by (rule returns_bind returns_if returns_Inr returns_Inl returns_case_triple
       | rule returns_any | simp)+

lemma bare_time_returns:
  "returns (bare_time st idx w)
     (\<lambda>(st1, l). words st1 = words st \<and> found st1 = found st \<and>
                  ((hrAbs st1 = hrAbs st \<and> minAbs st1 = minAbs st) \<or>
                   (l_strHH l = [] \<and> l_strMM l = [])))"
  unfolding bare_time_def Let_def
  by (rule returns_bind returns_if returns_Inr returns_Inl
       | rule returns_any | simp)+

lemma digit_parse_keeps:
  assumes "digit_parse st idx w = Inr (st1, l)"
  shows "words st1 = words st \<and> found st1 = found st \<and>
         ((hrAbs st1 = hrAbs st \<and> minAbs st1 = minAbs st) \<or> (l_strHH l = [] \<and> l_strMM l = []))"
proof (cases "contains '':'' w")
  case True
  with assms have "colon_time st idx w = Inr (st1, l)" by (simp add: digit_parse_def)
  from returnsD [OF colon_time_returns this] show ?thesis by simp
next
  case False
  with assms have "bare_time st idx w = Inr (st1, l)" by (simp add: digit_parse_def)
  from returnsD [OF bare_time_returns this] show ?thesis by simp
qed

lemma hour_minute_no_text:
  "l_strHH l = [] \<Longrightarrow> l_strMM l = [] \<Longrightarrow> hour_minute now_hour st l = Inr (HH, MM, d) \<Longrightarrow>
   HH \<le> 24 \<and> MM \<le> 59"
  by (auto simp: hour_minute_def ambiguous_hour_def Let_def split: if_splits)

text \<open>
  Claim C5. In the time phase, a parsed hour greater than 24 or a parsed minute
  greater than 59 invalidates the whole match of the word that starts with a digit:
  \<open>isTime\<close> is false and \<open>used\<close> is 0, so no absolute hour or minute is set and no word is
  consumed.
\<close>

theorem C5_invalid_hour_or_minute:
  assumes "digit_parse st idx w = Inr (st1, l)"
    and "hour_minute now_hour st1 l = Inr (HH, MM, d)"
    and "HH > 24 \<or> MM > 59"
  shows "time_validate (st1\<lparr>dayOffset := d\<rparr>) l HH MM = (st1\<lparr>dayOffset := d\<rparr>, 0) \<and>
         digit_time now_hour st idx w = Inr (st1\<lparr>dayOffset := d\<rparr>, 0) \<and>
         hrAbs (st1\<lparr>dayOffset := d\<rparr>) = hrAbs st \<and> minAbs (st1\<lparr>dayOffset := d\<rparr>) = minAbs st \<and>
         words (st1\<lparr>dayOffset := d\<rparr>) = words st \<and> found (st1\<lparr>dayOffset := d\<rparr>) = found st \<and>
         time_consume (st1\<lparr>dayOffset := d\<rparr>) idx 0 wordPrev wordPrevPrev = Inr (st1\<lparr>dayOffset := d\<rparr>)"
proof -
  have v: "time_validate (st1\<lparr>dayOffset := d\<rparr>) l HH MM = (st1\<lparr>dayOffset := d\<rparr>, 0)"
    using assms(3) by (auto simp: time_validate_def Let_def)
  have t: "digit_time now_hour st idx w = Inr (st1\<lparr>dayOffset := d\<rparr>, 0)"
    using assms(1,2) v by (simp add: digit_time_def)
  from digit_parse_keeps [OF assms(1)] hour_minute_no_text [OF _ _ assms(2)] assms(3)
  have k: "words st1 = words st" "found st1 = found st" "hrAbs st1 = hrAbs st"
    "minAbs st1 = minAbs st"
    by auto
  have c: "time_consume (st1\<lparr>dayOffset := d\<rparr>) idx 0 wordPrev wordPrevPrev
             = Inr (st1\<lparr>dayOffset := d\<rparr>)"
    by (simp add: time_consume_def)
  from v t k c show ?thesis by simp
qed

lemma parse_3_75:
  "digit_parse (initial_state [''at'', ''3:75'']) 1 ''3:75''
     = Inr (initial_state [''at'', ''3:75''],
            \<lparr>l_strHH = ''3'', l_strMM = ''75'', l_remainder = [], l_used = 0, l_isTime = True\<rparr>)"
  by code_simp

lemma hour_minute_3_75:
  "hour_minute 14 (initial_state [''at'', ''3:75''])
     \<lparr>l_strHH = ''3'', l_strMM = ''75'', l_remainder = [], l_used = 0, l_isTime = True\<rparr>
     = Inr (15, 75, 0)"
  by code_simp

theorem C5_invalid_hour_or_minute_witness:
  "digit_parse (initial_state [''at'', ''3:75'']) 1 ''3:75''
     = Inr (initial_state [''at'', ''3:75''],
            \<lparr>l_strHH = ''3'', l_strMM = ''75'', l_remainder = [], l_used = 0, l_isTime = True\<rparr>) \<and>
   hour_minute 14 (initial_state [''at'', ''3:75''])
     \<lparr>l_strHH = ''3'', l_strMM = ''75'', l_remainder = [], l_used = 0, l_isTime = True\<rparr>
     = Inr (15, 75, 0) \<and>
   digit_time 14 (initial_state [''at'', ''3:75'']) 1 ''3:75''
     = Inr (initial_state [''at'', ''3:75''], 0) \<and>
   time_step 14 (initial_state [''at'', ''3:75'']) 1 = Inr (initial_state [''at'', ''3:75''])"
proof -
  have m: "(15::int) > 24 \<or> (75::int) > 59" by simp
  have s: "time_step 14 (initial_state [''at'', ''3:75'']) 1 = Inr (initial_state [''at'', ''3:75''])"
    by code_simp
  have e: "(initial_state [''at'', ''3:75''])\<lparr>dayOffset := 0\<rparr> = initial_state [''at'', ''3:75'']"
    by (simp add: initial_state_def)
  from C5_invalid_hour_or_minute [OF parse_3_75 hour_minute_3_75 m] parse_3_75 hour_minute_3_75 s e
  show ?thesis by simp
qed

end
